theory Spec2Isabelle
  imports Complex_Main
begin

section \<open>Numbers, vectors and the external libraries\<close>

text \<open>
  The C++ code computes in \<open>float\<close> (and receives \<open>double\<close> from the windowing
  library). The model computes in \<open>real\<close>: rounding is not modelled, so every statement
  below is about the arithmetic the code writes down, read over the reals.
\<close>

datatype vec3 = vec3 (vec_x: real) (vec_y: real) (vec_z: real)

text \<open>\<open>glm::radians\<close> of the vector-math library: degrees to radians.\<close>

definition radians :: "real \<Rightarrow> real" where
  "radians degrees = degrees * pi / 180"

text \<open>The Euclidean length of a vector (\<open>glm::length\<close>).\<close>

definition vec_length :: "vec3 \<Rightarrow> real" where
  "vec_length v = sqrt ((vec_x v)\<^sup>2 + (vec_y v)\<^sup>2 + (vec_z v)\<^sup>2)"

text \<open>
  The matrix constructors of the vector-math library are external to the repository and
  are taken as parameters; \<open>'m\<close> is the library's matrix type.
\<close>

record 'm glm =
  lookAt :: "vec3 \<Rightarrow> vec3 \<Rightarrow> vec3 \<Rightarrow> 'm"
  ortho :: "real \<Rightarrow> real \<Rightarrow> real \<Rightarrow> real \<Rightarrow> real \<Rightarrow> real \<Rightarrow> 'm"
  perspective :: "real \<Rightarrow> real \<Rightarrow> real \<Rightarrow> real \<Rightarrow> 'm"

text \<open>
  Modelled from the spec: the \<open>Camera\<close> class comes from the course's utility
  library (\<open>camera.h\<close>), which is not part of the sources. Its data is the
  "position, front/up vectors, yaw/pitch/zoom" of the spec, with the \<open>MovementSpeed\<close>
  member the constructor of \<open>ViewManager\<close> writes. Its methods are parameters.
\<close>

record Camera =
  Position :: vec3
  Front :: vec3
  Up :: vec3
  Yaw :: real
  Pitch :: real
  Zoom :: real
  MovementSpeed :: real

datatype Camera_Movement = FORWARD | BACKWARD | LEFT | RIGHT | UP | DOWN

record 'm camera_h =
  Camera_new :: Camera
  ProcessKeyboard :: "Camera_Movement \<Rightarrow> real \<Rightarrow> Camera \<Rightarrow> Camera"
  ProcessMouseMovement :: "real \<Rightarrow> real \<Rightarrow> Camera \<Rightarrow> Camera"
  GetViewMatrix :: "Camera \<Rightarrow> 'm"

text \<open>The key codes and the key state of \<open>GLFW/glfw3.h\<close>.\<close>

named_theorems glfw_defs

definition GLFW_PRESS :: int where [glfw_defs]: "GLFW_PRESS = 1"
definition GLFW_RELEASE :: int where [glfw_defs]: "GLFW_RELEASE = 0"
definition GLFW_KEY_SPACE :: int where [glfw_defs]: "GLFW_KEY_SPACE = 32"
definition GLFW_KEY_A :: int where [glfw_defs]: "GLFW_KEY_A = 65"
definition GLFW_KEY_C :: int where [glfw_defs]: "GLFW_KEY_C = 67"
definition GLFW_KEY_D :: int where [glfw_defs]: "GLFW_KEY_D = 68"
definition GLFW_KEY_E :: int where [glfw_defs]: "GLFW_KEY_E = 69"
definition GLFW_KEY_F :: int where [glfw_defs]: "GLFW_KEY_F = 70"
definition GLFW_KEY_O :: int where [glfw_defs]: "GLFW_KEY_O = 79"
definition GLFW_KEY_P :: int where [glfw_defs]: "GLFW_KEY_P = 80"
definition GLFW_KEY_Q :: int where [glfw_defs]: "GLFW_KEY_Q = 81"
definition GLFW_KEY_R :: int where [glfw_defs]: "GLFW_KEY_R = 82"
definition GLFW_KEY_S :: int where [glfw_defs]: "GLFW_KEY_S = 83"
definition GLFW_KEY_T :: int where [glfw_defs]: "GLFW_KEY_T = 84"
definition GLFW_KEY_W :: int where [glfw_defs]: "GLFW_KEY_W = 87"
definition GLFW_KEY_ESCAPE :: int where [glfw_defs]: "GLFW_KEY_ESCAPE = 256"

section \<open>ViewManager.cpp: the state\<close>

definition WINDOW_WIDTH :: int where "WINDOW_WIDTH = 1000"
definition WINDOW_HEIGHT :: int where "WINDOW_HEIGHT = 800"
definition g_ViewName :: string where "g_ViewName = ''view''"
definition g_ProjectionName :: string where "g_ProjectionName = ''projection''"

text \<open>
  The variables of the anonymous namespace, the camera object behind \<open>g_pCamera\<close>, and
  the two things of the \<open>ViewManager\<close> object and its window that the functions read or
  write: whether \<open>m_pShaderManager\<close> is non-null, and the window's should-close flag.
\<close>

record view_state =
  g_pCamera :: Camera
  gLastX :: real
  gLastY :: real
  gFirstMouse :: bool
  m_scalar :: real
  p_scalar :: real
  gDeltaTime :: real
  gLastFrame :: real
  bOrthographicProjection :: bool
  o_camera_position :: vec3
  o_radius :: real
  o_yaw :: real
  o_pitch :: real
  o_scalar :: real
  bcolemak_layout :: bool
  gkey_forward :: int
  gkey_backward :: int
  gkey_left :: int
  gkey_right :: int
  gkey_up :: int
  gkey_down :: int
  gkey_layout :: int
  m_pShaderManager_set :: bool
  windowShouldClose :: bool

text \<open>
  The initialisers of the globals followed by the constructor
  \<open>ViewManager::ViewManager(pShaderManager)\<close>; the argument says whether the shader
  manager passed in is non-null.
\<close>

definition ViewManager :: "'m camera_h \<Rightarrow> bool \<Rightarrow> view_state" where
  "ViewManager lib pShaderManager =
     \<lparr> g_pCamera = (Camera_new lib)
         \<lparr> Position := vec3 0 5 12,
           Front := vec3 0 (-0.5) (-2),
           Up := vec3 0 1 0,
           Zoom := 80,
           MovementSpeed := 20 \<rparr>,
       gLastX = real_of_int WINDOW_WIDTH / 2,
       gLastY = real_of_int WINDOW_HEIGHT / 2,
       gFirstMouse = True,
       m_scalar = 1,
       p_scalar = 1,
       gDeltaTime = 0,
       gLastFrame = 0,
       bOrthographicProjection = False,
       o_camera_position = vec3 0 5 12,
       o_radius = 10,
       o_yaw = 0,
       o_pitch = 0,
       o_scalar = 5,
       bcolemak_layout = False,
       gkey_forward = GLFW_KEY_W,
       gkey_backward = GLFW_KEY_S,
       gkey_left = GLFW_KEY_A,
       gkey_right = GLFW_KEY_D,
       gkey_up = GLFW_KEY_Q,
       gkey_down = GLFW_KEY_E,
       gkey_layout = GLFW_KEY_C,
       m_pShaderManager_set = pShaderManager,
       windowShouldClose = False \<rparr>"

section \<open>ViewManager.cpp: the mouse callbacks\<close>

definition Mouse_Position_Callback ::
  "'m camera_h \<Rightarrow> real \<Rightarrow> real \<Rightarrow> view_state \<Rightarrow> view_state" where
  "Mouse_Position_Callback lib xMousePos yMousePos s0 =
     (let s = (if gFirstMouse s0
               then s0\<lparr> gLastX := xMousePos, gLastY := yMousePos, gFirstMouse := False \<rparr>
               else s0);
          xOffset = (xMousePos - gLastX s) * m_scalar s;
          yOffset = (gLastY s - yMousePos) * m_scalar s;
          s = s\<lparr> gLastX := xMousePos, gLastY := yMousePos \<rparr>
      in s\<lparr> g_pCamera := ProcessMouseMovement lib xOffset yOffset (g_pCamera s) \<rparr>)"

definition Mouse_Scroll_Wheel_Callback :: "real \<Rightarrow> real \<Rightarrow> view_state \<Rightarrow> view_state" where
  "Mouse_Scroll_Wheel_Callback xOffset yOffset s0 =
     (let s = s0\<lparr> m_scalar := m_scalar s0 + yOffset \<rparr>;
          s = (if m_scalar s < 0.01 then s\<lparr> m_scalar := 0.01 \<rparr> else s);
          s = (if m_scalar s > 10 then s\<lparr> m_scalar := 10 \<rparr> else s);
          s = s\<lparr> p_scalar := p_scalar s + xOffset \<rparr>;
          s = (if p_scalar s < 0.01 then s\<lparr> p_scalar := 0.01 \<rparr> else s);
          s = (if p_scalar s > 10 then s\<lparr> p_scalar := 10 \<rparr> else s)
      in s)"

section \<open>ViewManager.cpp: ProcessKeyboardEvents\<close>

text \<open>
  \<open>glfwGetKey(m_pWindow, key)\<close> is the parameter \<open>glfwGetKey\<close>: the state of each key
  during the call. The function is a sequence of \<open>if\<close> blocks, one per key; each block
  is a definition of its own, in the order of the source, and
  \<open>ProcessKeyboardEvents\<close> runs them one after the other on \<open>delta_scaled\<close>.
\<close>

definition ProcessKeyboardEvents_escape :: "(int \<Rightarrow> int) \<Rightarrow> view_state \<Rightarrow> view_state" where
  "ProcessKeyboardEvents_escape glfwGetKey s =
     (if glfwGetKey GLFW_KEY_ESCAPE = GLFW_PRESS then s\<lparr> windowShouldClose := True \<rparr> else s)"

definition ProcessKeyboardEvents_forward ::
  "'m camera_h \<Rightarrow> (int \<Rightarrow> int) \<Rightarrow> real \<Rightarrow> view_state \<Rightarrow> view_state" where
  "ProcessKeyboardEvents_forward lib glfwGetKey delta_scaled s0 =
     (if glfwGetKey (gkey_forward s0) = GLFW_PRESS then
        (let s = s0\<lparr> g_pCamera := ProcessKeyboard lib FORWARD delta_scaled (g_pCamera s0) \<rparr>
         in if bOrthographicProjection s then
              (let s = s\<lparr> o_pitch := o_pitch s + delta_scaled * o_scalar s \<rparr>;
                   s = (if o_pitch s > 360 then s\<lparr> o_pitch := 0 \<rparr> else s);
                   s = (if o_pitch s < 0 then s\<lparr> o_pitch := 359.9 \<rparr> else s)
               in s)
            else s)
      else s0)"

definition ProcessKeyboardEvents_backward ::
  "'m camera_h \<Rightarrow> (int \<Rightarrow> int) \<Rightarrow> real \<Rightarrow> view_state \<Rightarrow> view_state" where
  "ProcessKeyboardEvents_backward lib glfwGetKey delta_scaled s0 =
     (if glfwGetKey (gkey_backward s0) = GLFW_PRESS then
        (let s = s0\<lparr> g_pCamera := ProcessKeyboard lib BACKWARD delta_scaled (g_pCamera s0) \<rparr>
         in if bOrthographicProjection s then
              (let s = s\<lparr> o_pitch := o_pitch s - delta_scaled * o_scalar s \<rparr>;
                   s = (if o_pitch s > 360 then s\<lparr> o_pitch := 0 \<rparr> else s);
                   s = (if o_pitch s < 0 then s\<lparr> o_pitch := 359.9 \<rparr> else s)
               in s)
            else s)
      else s0)"

definition ProcessKeyboardEvents_left ::
  "'m camera_h \<Rightarrow> (int \<Rightarrow> int) \<Rightarrow> real \<Rightarrow> view_state \<Rightarrow> view_state" where
  "ProcessKeyboardEvents_left lib glfwGetKey delta_scaled s0 =
     (if glfwGetKey (gkey_left s0) = GLFW_PRESS then
        (let s = s0\<lparr> g_pCamera := ProcessKeyboard lib LEFT delta_scaled (g_pCamera s0) \<rparr>
         in if bOrthographicProjection s then
              (let s = s\<lparr> o_yaw := o_yaw s - delta_scaled * o_scalar s \<rparr>;
                   s = (if o_yaw s > 360 then s\<lparr> o_yaw := 0 \<rparr> else s);
                   s = (if o_yaw s < 0 then s\<lparr> o_yaw := 359.9 \<rparr> else s)
               in s)
            else s)
      else s0)"

definition ProcessKeyboardEvents_right ::
  "'m camera_h \<Rightarrow> (int \<Rightarrow> int) \<Rightarrow> real \<Rightarrow> view_state \<Rightarrow> view_state" where
  "ProcessKeyboardEvents_right lib glfwGetKey delta_scaled s0 =
     (if glfwGetKey (gkey_right s0) = GLFW_PRESS then
        (let s = (if bOrthographicProjection s0 then
                    (let s = s0\<lparr> o_yaw := o_yaw s0 + delta_scaled * o_scalar s0 \<rparr>;
                         s = (if o_yaw s > 360 then s\<lparr> o_yaw := 0 \<rparr> else s);
                         s = (if o_yaw s < 0 then s\<lparr> o_yaw := 359.9 \<rparr> else s)
                     in s)
                  else s0)
         in s\<lparr> g_pCamera := ProcessKeyboard lib RIGHT delta_scaled (g_pCamera s) \<rparr>)
      else s0)"

definition ProcessKeyboardEvents_up ::
  "'m camera_h \<Rightarrow> (int \<Rightarrow> int) \<Rightarrow> real \<Rightarrow> view_state \<Rightarrow> view_state" where
  "ProcessKeyboardEvents_up lib glfwGetKey delta_scaled s =
     (if glfwGetKey (gkey_up s) = GLFW_PRESS
      then s\<lparr> g_pCamera := ProcessKeyboard lib UP delta_scaled (g_pCamera s) \<rparr>
      else s)"

definition ProcessKeyboardEvents_down ::
  "'m camera_h \<Rightarrow> (int \<Rightarrow> int) \<Rightarrow> real \<Rightarrow> view_state \<Rightarrow> view_state" where
  "ProcessKeyboardEvents_down lib glfwGetKey delta_scaled s =
     (if glfwGetKey (gkey_down s) = GLFW_PRESS
      then s\<lparr> g_pCamera := ProcessKeyboard lib DOWN delta_scaled (g_pCamera s) \<rparr>
      else s)"

definition ProcessKeyboardEvents_perspective :: "(int \<Rightarrow> int) \<Rightarrow> view_state \<Rightarrow> view_state" where
  "ProcessKeyboardEvents_perspective glfwGetKey s =
     (if glfwGetKey GLFW_KEY_P = GLFW_PRESS then
        s\<lparr> g_pCamera := (g_pCamera s)
               \<lparr> Position := vec3 0 5 12,
                 Front := vec3 0 (-0.5) (-2),
                 Up := vec3 0 1 0 \<rparr>,
           bOrthographicProjection := False \<rparr>
      else s)"

definition ProcessKeyboardEvents_orthographic :: "(int \<Rightarrow> int) \<Rightarrow> view_state \<Rightarrow> view_state" where
  "ProcessKeyboardEvents_orthographic glfwGetKey s =
     (if glfwGetKey GLFW_KEY_O = GLFW_PRESS then
        s\<lparr> o_camera_position := vec3 0 5 12,
           o_yaw := 0,
           o_pitch := 0,
           bOrthographicProjection := True \<rparr>
      else s)"

definition ProcessKeyboardEvents_layout :: "(int \<Rightarrow> int) \<Rightarrow> view_state \<Rightarrow> view_state" where
  "ProcessKeyboardEvents_layout glfwGetKey s =
     (if glfwGetKey (gkey_layout s) = GLFW_PRESS then
        (if bcolemak_layout s then
           s\<lparr> gkey_forward := GLFW_KEY_W,
              gkey_backward := GLFW_KEY_S,
              gkey_left := GLFW_KEY_A,
              gkey_right := GLFW_KEY_D,
              gkey_up := GLFW_KEY_Q,
              gkey_down := GLFW_KEY_E,
              gkey_layout := GLFW_KEY_C,
              bcolemak_layout := False \<rparr>
         else
           s\<lparr> gkey_forward := GLFW_KEY_F,
              gkey_backward := GLFW_KEY_S,
              gkey_left := GLFW_KEY_R,
              gkey_right := GLFW_KEY_T,
              gkey_up := GLFW_KEY_SPACE,
              gkey_down := GLFW_KEY_A,
              gkey_layout := GLFW_KEY_Q,
              bcolemak_layout := True \<rparr>)
      else s)"

definition ProcessKeyboardEvents ::
  "'m camera_h \<Rightarrow> (int \<Rightarrow> int) \<Rightarrow> view_state \<Rightarrow> view_state" where
  "ProcessKeyboardEvents lib glfwGetKey s0 =
     (let delta_scaled = gDeltaTime s0 * p_scalar s0;
          s = ProcessKeyboardEvents_escape glfwGetKey s0;
          s = ProcessKeyboardEvents_forward lib glfwGetKey delta_scaled s;
          s = ProcessKeyboardEvents_backward lib glfwGetKey delta_scaled s;
          s = ProcessKeyboardEvents_left lib glfwGetKey delta_scaled s;
          s = ProcessKeyboardEvents_right lib glfwGetKey delta_scaled s;
          s = ProcessKeyboardEvents_up lib glfwGetKey delta_scaled s;
          s = ProcessKeyboardEvents_down lib glfwGetKey delta_scaled s;
          s = ProcessKeyboardEvents_perspective glfwGetKey s;
          s = ProcessKeyboardEvents_orthographic glfwGetKey s;
          s = ProcessKeyboardEvents_layout glfwGetKey s
      in s)"

section \<open>ViewManager.cpp: the orbit camera and PrepareSceneView\<close>

definition update_o_camera_position :: "view_state \<Rightarrow> view_state" where
  "update_o_camera_position s =
     s\<lparr> o_camera_position :=
          vec3 (cos (radians (o_yaw s)) * cos (radians (o_pitch s)) * o_radius s)
               (sin (radians (o_pitch s)) * o_radius s)
               (sin (radians (o_yaw s)) * cos (radians (o_pitch s)) * o_radius s) \<rparr>"

text \<open>The calls the two managers make on the shader manager.\<close>

datatype 'm shader_call =
  setMat4Value string 'm
  | setVec3Value string vec3
  | setFloatValue string real

text \<open>
  \<open>PrepareSceneView\<close>: \<open>currentFrame\<close> is what \<open>glfwGetTime()\<close> returns. The result is
  the new state, the local variables \<open>view\<close> and \<open>projection\<close> at the end of the
  function, and the calls made on the shader manager.
\<close>

definition PrepareSceneView ::
  "'m camera_h \<Rightarrow> 'm glm \<Rightarrow> real \<Rightarrow> (int \<Rightarrow> int) \<Rightarrow> view_state
     \<Rightarrow> view_state \<times> 'm \<times> 'm \<times> 'm shader_call list" where
  "PrepareSceneView lib g currentFrame glfwGetKey s0 =
     (let s = s0\<lparr> gDeltaTime := currentFrame - gLastFrame s0 \<rparr>;
          s = s\<lparr> gLastFrame := currentFrame \<rparr>;
          s = ProcessKeyboardEvents lib glfwGetKey s;
          view = GetViewMatrix lib (g_pCamera s);
          ortho_scale = 0.02;
          (s, view, projection) =
            (if bOrthographicProjection s = True then
               (let s = update_o_camera_position s
                in (s,
                    lookAt g (o_camera_position s) (vec3 0 0 0) (vec3 0 1 0),
                    ortho g (real_of_int WINDOW_WIDTH * (-1) * ortho_scale)
                            (real_of_int WINDOW_WIDTH * ortho_scale)
                            (real_of_int WINDOW_HEIGHT * (-1) * ortho_scale)
                            (real_of_int WINDOW_HEIGHT * ortho_scale) 0.1 100))
             else
               (s, view,
                perspective g (radians (Zoom (g_pCamera s)))
                  (real_of_int WINDOW_WIDTH / real_of_int WINDOW_HEIGHT) 0.1 100))
      in (s, view, projection,
          (if m_pShaderManager_set s then
             [setMat4Value g_ViewName view,
              setMat4Value g_ProjectionName projection,
              setVec3Value ''viewPosition'' (Position (g_pCamera s))]
           else [])))"

text \<open>
  The input events of the view manager: the two mouse callbacks the window library calls,
  a call of \<open>ProcessKeyboardEvents\<close> on its own, and a frame (a call of
  \<open>PrepareSceneView\<close>, which processes the keyboard itself).
\<close>

datatype event =
  Mouse_Position real real
  | Mouse_Scroll_Wheel real real
  | Keyboard "int \<Rightarrow> int"
  | Frame real "int \<Rightarrow> int"

fun dispatch :: "'m camera_h \<Rightarrow> 'm glm \<Rightarrow> view_state \<Rightarrow> event \<Rightarrow> view_state" where
  "dispatch lib g s (Mouse_Position xMousePos yMousePos) =
     Mouse_Position_Callback lib xMousePos yMousePos s"
| "dispatch lib g s (Mouse_Scroll_Wheel xOffset yOffset) =
     Mouse_Scroll_Wheel_Callback xOffset yOffset s"
| "dispatch lib g s (Keyboard glfwGetKey) = ProcessKeyboardEvents lib glfwGetKey s"
| "dispatch lib g s (Frame currentFrame glfwGetKey) =
     fst (PrepareSceneView lib g currentFrame glfwGetKey s)"

definition run :: "'m camera_h \<Rightarrow> 'm glm \<Rightarrow> event list \<Rightarrow> view_state \<Rightarrow> view_state" where
  "run lib g events s = foldl (dispatch lib g) s events"

section \<open>Notions the statements about ViewManager.cpp use\<close>

text \<open>
  What the two \<open>if\<close> statements after each angle update compute together: a value above
  360 becomes 0, a value below 0 becomes 359.9, any other value stays.
\<close>

definition wrap_0_360 :: "real \<Rightarrow> real" where
  "wrap_0_360 a = (if a > 360 then 0 else if a < 0 then 359.9 else a)"

text \<open>The seven key-code variables, and the two tables the layout block assigns.\<close>

definition key_table :: "view_state \<Rightarrow> int \<times> int \<times> int \<times> int \<times> int \<times> int \<times> int" where
  "key_table s =
     (gkey_forward s, gkey_backward s, gkey_left s, gkey_right s, gkey_up s, gkey_down s,
      gkey_layout s)"

definition qwerty_table :: "int \<times> int \<times> int \<times> int \<times> int \<times> int \<times> int" where
  "qwerty_table =
     (GLFW_KEY_W, GLFW_KEY_S, GLFW_KEY_A, GLFW_KEY_D, GLFW_KEY_Q, GLFW_KEY_E, GLFW_KEY_C)"

definition colemak_table :: "int \<times> int \<times> int \<times> int \<times> int \<times> int \<times> int" where
  "colemak_table =
     (GLFW_KEY_F, GLFW_KEY_S, GLFW_KEY_R, GLFW_KEY_T, GLFW_KEY_SPACE, GLFW_KEY_A, GLFW_KEY_Q)"

text \<open>
  The two layout states: the flag is off with the first table in the variables (the
  initial state), or on with the second.
\<close>

definition layout_state :: "view_state \<Rightarrow> bool" where
  "layout_state s \<longleftrightarrow>
     (bcolemak_layout s, key_table s) = (False, qwerty_table)
     \<or> (bcolemak_layout s, key_table s) = (True, colemak_table)"

text \<open>
  A keyboard on which exactly one key is held, one on which none is, and one on which
  two keys are held.
\<close>

definition press :: "int \<Rightarrow> int \<Rightarrow> int" where
  "press key = (\<lambda>c. if c = key then GLFW_PRESS else GLFW_RELEASE)"

definition released :: "int \<Rightarrow> int" where
  "released = (\<lambda>c. GLFW_RELEASE)"

definition press_both :: "int \<Rightarrow> int \<Rightarrow> int \<Rightarrow> int" where
  "press_both key1 key2 = (\<lambda>c. if c = key1 \<or> c = key2 then GLFW_PRESS else GLFW_RELEASE)"

section \<open>SceneManager.cpp: the state\<close>

record OBJECT_MATERIAL =
  tag :: string
  ambientColor :: vec3
  ambientStrength :: real
  diffuseColor :: vec3
  specularColor :: vec3
  shininess :: real

text \<open>
  The primitive meshes of the external \<open>ShapeMeshes\<close> class (the source uses five of
  them), and the calls the scene manager makes on its \<open>ShapeMeshes\<close> object.
\<close>

datatype mesh =
  BoxMesh | ConeMesh | CylinderMesh | PlaneMesh | PrismMesh | Pyramid3Mesh | Pyramid4Mesh
  | SphereMesh | TaperedCylinderMesh | TorusMesh

datatype ShapeMeshes_call = LoadMesh mesh | DrawMesh mesh

text \<open>
  The members of \<open>SceneManager\<close>. \<open>m_textureIDs\<close> is the array of (ID, tag) entries,
  as a map from the slots written so far; \<open>m_basicMeshes\<close> is the \<open>ShapeMeshes\<close> object,
  as the list of the calls it has received.
\<close>

record scene_state =
  m_objectMaterials :: "OBJECT_MATERIAL list"
  m_textureIDs :: "nat \<rightharpoonup> nat \<times> string"
  m_loadedTextures :: nat
  m_basicMeshes :: "ShapeMeshes_call list"

definition SceneManager :: scene_state where
  "SceneManager =
     \<lparr> m_objectMaterials = [],
       m_textureIDs = Map.empty,
       m_loadedTextures = 0,
       m_basicMeshes = [] \<rparr>"

section \<open>SceneManager.cpp: materials\<close>

text \<open>
  The \<open>while\<close> loop of \<open>FindMaterial\<close>, on its variables \<open>index\<close>, \<open>bFound\<close> and
  the output parameter \<open>material\<close>; the result is the output parameter when the loop
  ends.
\<close>

function FindMaterial_loop ::
  "OBJECT_MATERIAL list \<Rightarrow> string \<Rightarrow> nat \<Rightarrow> bool \<Rightarrow> OBJECT_MATERIAL \<Rightarrow> OBJECT_MATERIAL" where
  "FindMaterial_loop materials t index bFound material =
     (if index < length materials \<and> bFound = False then
        (if tag (materials ! index) = t then
           FindMaterial_loop materials t index True
             (material
                \<lparr> ambientColor := ambientColor (materials ! index),
                  ambientStrength := ambientStrength (materials ! index),
                  diffuseColor := diffuseColor (materials ! index),
                  specularColor := specularColor (materials ! index),
                  shininess := shininess (materials ! index) \<rparr>)
         else FindMaterial_loop materials t (index + 1) bFound material)
      else material)"
  by pat_completeness auto
termination
  by (relation "measure (\<lambda>(ms, t, index, bFound, material).
        2 * (length ms - index) + (if bFound then 0 else 1))") auto

declare FindMaterial_loop.simps [simp del]

text \<open>\<open>FindMaterial\<close>: the returned flag and the output parameter after the call.\<close>

definition FindMaterial ::
  "scene_state \<Rightarrow> string \<Rightarrow> OBJECT_MATERIAL \<Rightarrow> bool \<times> OBJECT_MATERIAL" where
  "FindMaterial s t material =
     (if length (m_objectMaterials s) = 0 then (False, material)
      else (True, FindMaterial_loop (m_objectMaterials s) t 0 False material))"

text \<open>
  \<open>SetShaderMaterial\<close>: the calls made on the shader manager. The local
  \<open>OBJECT_MATERIAL material\<close> is declared without an initialiser; \<open>uninitialised\<close> is
  whatever it holds.
\<close>

definition SetShaderMaterial ::
  "scene_state \<Rightarrow> string \<Rightarrow> OBJECT_MATERIAL \<Rightarrow> 'm shader_call list" where
  "SetShaderMaterial s materialTag uninitialised =
     (if length (m_objectMaterials s) > 0 then
        (let (bReturn, material) = FindMaterial s materialTag uninitialised
         in if bReturn = True then
              [setVec3Value ''material.ambientColor'' (ambientColor material),
               setFloatValue ''material.ambientStrength'' (ambientStrength material),
               setVec3Value ''material.diffuseColor'' (diffuseColor material),
               setVec3Value ''material.specularColor'' (specularColor material),
               setFloatValue ''material.shininess'' (shininess material)]
            else [])
      else [])"

text \<open>What a hit copies into the output parameter: five fields, not the tag.\<close>

definition copy_material :: "OBJECT_MATERIAL \<Rightarrow> OBJECT_MATERIAL \<Rightarrow> OBJECT_MATERIAL" where
  "copy_material entry material =
     material
       \<lparr> ambientColor := ambientColor entry,
         ambientStrength := ambientStrength entry,
         diffuseColor := diffuseColor entry,
         specularColor := specularColor entry,
         shininess := shininess entry \<rparr>"

definition DefineObjectMaterials :: "scene_state \<Rightarrow> scene_state" where
  "DefineObjectMaterials s =
     (let wood_mat =
            \<lparr> tag = ''wood'', ambientColor = vec3 0.1 0.1 0, ambientStrength = 0.3,
              diffuseColor = vec3 0.7 0.7 0.6, specularColor = vec3 0.5 0.5 0.4,
              shininess = 32 \<rparr>;
          glass_mat =
            \<lparr> tag = ''glass'', ambientColor = vec3 0.1 0.1 0.1, ambientStrength = 0.3,
              diffuseColor = vec3 0.2 0.2 0.2, specularColor = vec3 0.8 0.8 0.8,
              shininess = 64 \<rparr>;
          plastic_mat =
            \<lparr> tag = ''plastic'', ambientColor = vec3 0 0.1 0.1, ambientStrength = 0.3,
              diffuseColor = vec3 0.8 0.8 0.8, specularColor = vec3 0.2 0.6 0.4,
              shininess = 16 \<rparr>;
          track_mat =
            \<lparr> tag = ''trackball'', ambientColor = vec3 0.2 0.2 0.2, ambientStrength = 0.3,
              diffuseColor = vec3 0.4 0.4 0.4, specularColor = vec3 0.7 0.7 0.7,
              shininess = 48 \<rparr>;
          ball_mat =
            \<lparr> tag = ''ballball'', ambientColor = vec3 0.2 0.2 0.2, ambientStrength = 0.3,
              diffuseColor = vec3 0.4 0.4 0.4, specularColor = vec3 0.7 0.7 0.7,
              shininess = 128 \<rparr>;
          alum_mat =
            \<lparr> tag = ''aluminum'', ambientColor = vec3 0.3 0.3 0.3, ambientStrength = 0.1,
              diffuseColor = vec3 0.3 0.3 0.3, specularColor = vec3 0.6 0.6 0.6,
              shininess = 64 \<rparr>;
          crt_mat =
            \<lparr> tag = ''crt'', ambientColor = vec3 0.6 0.6 0.6, ambientStrength = 0.3,
              diffuseColor = vec3 0.6 0.6 0.6, specularColor = vec3 0.7 0.7 0.7,
              shininess = 12 \<rparr>
      in s\<lparr> m_objectMaterials :=
             m_objectMaterials s
               @ [wood_mat, glass_mat, plastic_mat, track_mat, ball_mat, alum_mat, crt_mat] \<rparr>)"

section \<open>SceneManager.cpp: textures and PrepareScene\<close>

text \<open>
  The image loader and the graphics library are external: \<open>stbi_load\<close> gives the number
  of colour channels of the image in a file, or nothing when the file cannot be read, and
  \<open>glGenTextures\<close> the texture name generated for it.
\<close>

record image_io =
  stbi_load :: "string \<Rightarrow> nat option"
  glGenTextures :: "string \<Rightarrow> nat"

definition CreateGLTexture ::
  "image_io \<Rightarrow> string \<Rightarrow> string \<Rightarrow> scene_state \<Rightarrow> bool \<times> scene_state" where
  "CreateGLTexture io filename t s =
     (case stbi_load io filename of
        Some colorChannels \<Rightarrow>
          (let textureID = glGenTextures io filename in
           if colorChannels = 3 \<or> colorChannels = 4 then
             (True,
              s\<lparr> m_textureIDs := (m_textureIDs s)(m_loadedTextures s \<mapsto> (textureID, t)),
                 m_loadedTextures := m_loadedTextures s + 1 \<rparr>)
           else (False, s))
      | None \<Rightarrow> (False, s))"

text \<open>\<open>exit(status)\<close>: the program ends inside the call.\<close>

datatype halt = Exit int

definition LoadSceneTextures :: "image_io \<Rightarrow> scene_state \<Rightarrow> halt + scene_state" where
  "LoadSceneTextures io s0 =
     (let (ok, s) = CreateGLTexture io ''textures/keyboard-filament.png'' ''keyboard'' s0 in
      if \<not> ok then Inl (Exit 1) else
      let (ok, s) = CreateGLTexture io ''textures/dark-wood.png'' ''desk'' s in
      if \<not> ok then Inl (Exit 1) else
      let (ok, s) = CreateGLTexture io ''textures/keycap.png'' ''keycap'' s in
      if \<not> ok then Inl (Exit 1) else
      let (ok, s) = CreateGLTexture io ''textures/deskmat.png'' ''deskmat'' s in
      if \<not> ok then Inl (Exit 1) else
      let (ok, s) =
            CreateGLTexture io ''textures/deskmat_specularmap.png'' ''deskmat_specmap'' s in
      if \<not> ok then Inl (Exit 1) else
      let (ok, s) =
            CreateGLTexture io ''textures/Hackerlambda1440p.png'' ''lambda_wallpaper'' s in
      if \<not> ok then Inl (Exit 1) else
      Inr s)"

text \<open>
  \<open>PrepareScene\<close>. \<open>SetUpSceneLights\<close> and \<open>BindGLTextures\<close> only call the shader
  manager and the graphics library and leave the members as they are.
\<close>

definition PrepareScene :: "image_io \<Rightarrow> scene_state \<Rightarrow> halt + scene_state" where
  "PrepareScene io s0 =
     (let s = DefineObjectMaterials s0 in
      case LoadSceneTextures io s of
        Inl e \<Rightarrow> Inl e
      | Inr s \<Rightarrow>
          Inr (s\<lparr> m_basicMeshes :=
                    m_basicMeshes s
                      @ [LoadMesh PlaneMesh, LoadMesh BoxMesh, LoadMesh SphereMesh,
                         LoadMesh CylinderMesh, LoadMesh PrismMesh] \<rparr>))"

section \<open>SceneManager.cpp: RenderScene\<close>

text \<open>
  Each draw function is straight-line code: assignments of transformations, colours,
  textures and materials, and calls on \<open>m_basicMeshes\<close>. The model keeps the calls on
  \<open>m_basicMeshes\<close>, in the order of the source.
\<close>

definition drawDesk :: "ShapeMeshes_call list" where
  "drawDesk = [DrawMesh PlaneMesh]"

definition drawKeyboard :: "ShapeMeshes_call list" where
  "drawKeyboard =
     [DrawMesh BoxMesh, DrawMesh BoxMesh, DrawMesh BoxMesh,
      DrawMesh BoxMesh, DrawMesh BoxMesh, DrawMesh BoxMesh, DrawMesh BoxMesh,
      DrawMesh BoxMesh, DrawMesh BoxMesh, DrawMesh BoxMesh, DrawMesh BoxMesh,
      DrawMesh BoxMesh, DrawMesh BoxMesh, DrawMesh BoxMesh, DrawMesh BoxMesh,
      DrawMesh BoxMesh, DrawMesh BoxMesh, DrawMesh BoxMesh, DrawMesh BoxMesh,
      DrawMesh BoxMesh, DrawMesh BoxMesh, DrawMesh BoxMesh, DrawMesh BoxMesh,
      DrawMesh BoxMesh, DrawMesh BoxMesh, DrawMesh BoxMesh, DrawMesh BoxMesh]"

definition drawWalls :: "ShapeMeshes_call list" where
  "drawWalls = [DrawMesh PlaneMesh, DrawMesh PlaneMesh]"

definition drawPrimaryMonitor :: "ShapeMeshes_call list" where
  "drawPrimaryMonitor =
     [DrawMesh PlaneMesh, DrawMesh PlaneMesh,
      DrawMesh PrismMesh, DrawMesh PrismMesh, DrawMesh PrismMesh]"

definition drawSecondaryMonitor :: "ShapeMeshes_call list" where
  "drawSecondaryMonitor =
     [DrawMesh BoxMesh, DrawMesh BoxMesh, DrawMesh CylinderMesh,
      DrawMesh BoxMesh, DrawMesh BoxMesh]"

definition drawTower :: "ShapeMeshes_call list" where
  "drawTower =
     [DrawMesh PlaneMesh, DrawMesh PlaneMesh, DrawMesh PlaneMesh, DrawMesh PlaneMesh,
      DrawMesh PlaneMesh, DrawMesh CylinderMesh, DrawMesh PlaneMesh]"

definition drawTrackball :: "ShapeMeshes_call list" where
  "drawTrackball =
     [DrawMesh SphereMesh, DrawMesh CylinderMesh, DrawMesh CylinderMesh,
      DrawMesh SphereMesh, DrawMesh CylinderMesh]"

definition RenderScene :: "ShapeMeshes_call list" where
  "RenderScene =
     drawDesk @ drawWalls @ drawKeyboard @ drawTrackball
       @ drawPrimaryMonitor @ drawSecondaryMonitor @ drawTower"

section \<open>Notions the statements about SceneManager.cpp use\<close>

text \<open>The six files \<open>LoadSceneTextures\<close> reads, and when a file loads as a texture.\<close>

definition texture_files :: "string list" where
  "texture_files =
     [''textures/keyboard-filament.png'', ''textures/dark-wood.png'',
      ''textures/keycap.png'', ''textures/deskmat.png'',
      ''textures/deskmat_specularmap.png'', ''textures/Hackerlambda1440p.png'']"

definition loadable :: "image_io \<Rightarrow> string \<Rightarrow> bool" where
  "loadable io filename \<longleftrightarrow>
     stbi_load io filename = Some 3 \<or> stbi_load io filename = Some 4"

definition textures_load :: "image_io \<Rightarrow> bool" where
  "textures_load io \<longleftrightarrow> list_all (loadable io) texture_files"

section \<open>Concrete libraries and inputs\<close>

text \<open>
  Instances of the external libraries on which the model can be evaluated: matrices kept
  as the terms that construct them, a camera that moves along its vectors and turns by
  the mouse offsets, an image loader for which every file is an RGBA image and one for
  which no file exists.
\<close>

datatype mat4 =
  LookAt vec3 vec3 vec3
  | Ortho real real real real real real
  | Perspective real real real real

definition glm_terms :: "mat4 glm" where
  "glm_terms = \<lparr> lookAt = LookAt, ortho = Ortho, perspective = Perspective \<rparr>"

definition vec_add :: "vec3 \<Rightarrow> vec3 \<Rightarrow> vec3" where
  "vec_add a b = vec3 (vec_x a + vec_x b) (vec_y a + vec_y b) (vec_z a + vec_z b)"

definition vec_scale :: "real \<Rightarrow> vec3 \<Rightarrow> vec3" where
  "vec_scale c a = vec3 (c * vec_x a) (c * vec_y a) (c * vec_z a)"

definition fly_camera :: "mat4 camera_h" where
  "fly_camera =
     \<lparr> Camera_new =
         \<lparr> Position = vec3 0 0 0, Front = vec3 0 0 (-1), Up = vec3 0 1 0,
           Yaw = -90, Pitch = 0, Zoom = 45, MovementSpeed = 2.5 \<rparr>,
       ProcessKeyboard =
         (\<lambda>direction deltaTime c.
            let velocity = MovementSpeed c * deltaTime;
                along = (case direction of
                           FORWARD \<Rightarrow> vec_scale velocity (Front c)
                         | BACKWARD \<Rightarrow> vec_scale (- velocity) (Front c)
                         | LEFT \<Rightarrow> vec3 (- velocity) 0 0
                         | RIGHT \<Rightarrow> vec3 velocity 0 0
                         | UP \<Rightarrow> vec_scale velocity (Up c)
                         | DOWN \<Rightarrow> vec_scale (- velocity) (Up c))
            in c\<lparr> Position := vec_add (Position c) along \<rparr>),
       ProcessMouseMovement =
         (\<lambda>xoffset yoffset c.
            c\<lparr> Yaw := Yaw c + xoffset * 0.1, Pitch := Pitch c + yoffset * 0.1 \<rparr>),
       GetViewMatrix = (\<lambda>c. LookAt (Position c) (vec_add (Position c) (Front c)) (Up c)) \<rparr>"

definition rgba_files :: image_io where
  "rgba_files = \<lparr> stbi_load = (\<lambda>filename. Some 4), glGenTextures = length \<rparr>"

definition no_files :: image_io where
  "no_files = \<lparr> stbi_load = (\<lambda>filename. None), glGenTextures = length \<rparr>"

section \<open>Lemmas: the blocks of ProcessKeyboardEvents\<close>

lemmas PKE_block_defs =
  ProcessKeyboardEvents_escape_def ProcessKeyboardEvents_forward_def
  ProcessKeyboardEvents_backward_def ProcessKeyboardEvents_left_def
  ProcessKeyboardEvents_right_def ProcessKeyboardEvents_up_def
  ProcessKeyboardEvents_down_def ProcessKeyboardEvents_perspective_def
  ProcessKeyboardEvents_orthographic_def ProcessKeyboardEvents_layout_def

lemma wrap_0_360_range: "0 \<le> wrap_0_360 a \<and> wrap_0_360 a \<le> 360"
  by (simp add: wrap_0_360_def)

lemma o_radius_blocks:
  "o_radius (ProcessKeyboardEvents_escape k s) = o_radius s"
  "o_radius (ProcessKeyboardEvents_forward lib k d s) = o_radius s"
  "o_radius (ProcessKeyboardEvents_backward lib k d s) = o_radius s"
  "o_radius (ProcessKeyboardEvents_left lib k d s) = o_radius s"
  "o_radius (ProcessKeyboardEvents_right lib k d s) = o_radius s"
  "o_radius (ProcessKeyboardEvents_up lib k d s) = o_radius s"
  "o_radius (ProcessKeyboardEvents_down lib k d s) = o_radius s"
  "o_radius (ProcessKeyboardEvents_perspective k s) = o_radius s"
  "o_radius (ProcessKeyboardEvents_orthographic k s) = o_radius s"
  "o_radius (ProcessKeyboardEvents_layout k s) = o_radius s"
  by (simp_all add: PKE_block_defs Let_def)

lemma o_pitch_blocks:
  "o_pitch (ProcessKeyboardEvents_escape k s) = o_pitch s"
  "o_pitch (ProcessKeyboardEvents_forward lib k d s) =
     (if k (gkey_forward s) = GLFW_PRESS \<and> bOrthographicProjection s
      then wrap_0_360 (o_pitch s + d * o_scalar s) else o_pitch s)"
  "o_pitch (ProcessKeyboardEvents_backward lib k d s) =
     (if k (gkey_backward s) = GLFW_PRESS \<and> bOrthographicProjection s
      then wrap_0_360 (o_pitch s - d * o_scalar s) else o_pitch s)"
  "o_pitch (ProcessKeyboardEvents_left lib k d s) = o_pitch s"
  "o_pitch (ProcessKeyboardEvents_right lib k d s) = o_pitch s"
  "o_pitch (ProcessKeyboardEvents_up lib k d s) = o_pitch s"
  "o_pitch (ProcessKeyboardEvents_down lib k d s) = o_pitch s"
  "o_pitch (ProcessKeyboardEvents_perspective k s) = o_pitch s"
  "o_pitch (ProcessKeyboardEvents_orthographic k s) =
     (if k GLFW_KEY_O = GLFW_PRESS then 0 else o_pitch s)"
  "o_pitch (ProcessKeyboardEvents_layout k s) = o_pitch s"
  by (simp_all add: PKE_block_defs Let_def wrap_0_360_def)

lemma o_yaw_blocks:
  "o_yaw (ProcessKeyboardEvents_escape k s) = o_yaw s"
  "o_yaw (ProcessKeyboardEvents_forward lib k d s) = o_yaw s"
  "o_yaw (ProcessKeyboardEvents_backward lib k d s) = o_yaw s"
  "o_yaw (ProcessKeyboardEvents_left lib k d s) =
     (if k (gkey_left s) = GLFW_PRESS \<and> bOrthographicProjection s
      then wrap_0_360 (o_yaw s - d * o_scalar s) else o_yaw s)"
  "o_yaw (ProcessKeyboardEvents_right lib k d s) =
     (if k (gkey_right s) = GLFW_PRESS \<and> bOrthographicProjection s
      then wrap_0_360 (o_yaw s + d * o_scalar s) else o_yaw s)"
  "o_yaw (ProcessKeyboardEvents_up lib k d s) = o_yaw s"
  "o_yaw (ProcessKeyboardEvents_down lib k d s) = o_yaw s"
  "o_yaw (ProcessKeyboardEvents_perspective k s) = o_yaw s"
  "o_yaw (ProcessKeyboardEvents_orthographic k s) =
     (if k GLFW_KEY_O = GLFW_PRESS then 0 else o_yaw s)"
  "o_yaw (ProcessKeyboardEvents_layout k s) = o_yaw s"
  by (simp_all add: PKE_block_defs Let_def wrap_0_360_def)

lemma flag_blocks:
  "bOrthographicProjection (ProcessKeyboardEvents_escape k s) = bOrthographicProjection s"
  "bOrthographicProjection (ProcessKeyboardEvents_forward lib k d s) = bOrthographicProjection s"
  "bOrthographicProjection (ProcessKeyboardEvents_backward lib k d s) = bOrthographicProjection s"
  "bOrthographicProjection (ProcessKeyboardEvents_left lib k d s) = bOrthographicProjection s"
  "bOrthographicProjection (ProcessKeyboardEvents_right lib k d s) = bOrthographicProjection s"
  "bOrthographicProjection (ProcessKeyboardEvents_up lib k d s) = bOrthographicProjection s"
  "bOrthographicProjection (ProcessKeyboardEvents_down lib k d s) = bOrthographicProjection s"
  "bOrthographicProjection (ProcessKeyboardEvents_perspective k s) =
     (if k GLFW_KEY_P = GLFW_PRESS then False else bOrthographicProjection s)"
  "bOrthographicProjection (ProcessKeyboardEvents_orthographic k s) =
     (if k GLFW_KEY_O = GLFW_PRESS then True else bOrthographicProjection s)"
  "bOrthographicProjection (ProcessKeyboardEvents_layout k s) = bOrthographicProjection s"
  by (simp_all add: PKE_block_defs Let_def)

lemma o_scalar_blocks:
  "o_scalar (ProcessKeyboardEvents_escape k s) = o_scalar s"
  "o_scalar (ProcessKeyboardEvents_forward lib k d s) = o_scalar s"
  "o_scalar (ProcessKeyboardEvents_backward lib k d s) = o_scalar s"
  "o_scalar (ProcessKeyboardEvents_left lib k d s) = o_scalar s"
  "o_scalar (ProcessKeyboardEvents_right lib k d s) = o_scalar s"
  by (simp_all add: PKE_block_defs Let_def)

lemma key_table_blocks:
  "key_table (ProcessKeyboardEvents_escape k s) = key_table s"
  "key_table (ProcessKeyboardEvents_forward lib k d s) = key_table s"
  "key_table (ProcessKeyboardEvents_backward lib k d s) = key_table s"
  "key_table (ProcessKeyboardEvents_left lib k d s) = key_table s"
  "key_table (ProcessKeyboardEvents_right lib k d s) = key_table s"
  "key_table (ProcessKeyboardEvents_up lib k d s) = key_table s"
  "key_table (ProcessKeyboardEvents_down lib k d s) = key_table s"
  "key_table (ProcessKeyboardEvents_perspective k s) = key_table s"
  "key_table (ProcessKeyboardEvents_orthographic k s) = key_table s"
  by (simp_all add: PKE_block_defs Let_def key_table_def)

lemma key_table_fields:
  "gkey_forward s = fst (key_table s)"
  "gkey_backward s = fst (snd (key_table s))"
  "gkey_left s = fst (snd (snd (key_table s)))"
  "gkey_right s = fst (snd (snd (snd (key_table s))))"
  "gkey_layout s = snd (snd (snd (snd (snd (snd (key_table s))))))"
  by (simp_all add: key_table_def)

lemma bcolemak_blocks:
  "bcolemak_layout (ProcessKeyboardEvents_escape k s) = bcolemak_layout s"
  "bcolemak_layout (ProcessKeyboardEvents_forward lib k d s) = bcolemak_layout s"
  "bcolemak_layout (ProcessKeyboardEvents_backward lib k d s) = bcolemak_layout s"
  "bcolemak_layout (ProcessKeyboardEvents_left lib k d s) = bcolemak_layout s"
  "bcolemak_layout (ProcessKeyboardEvents_right lib k d s) = bcolemak_layout s"
  "bcolemak_layout (ProcessKeyboardEvents_up lib k d s) = bcolemak_layout s"
  "bcolemak_layout (ProcessKeyboardEvents_down lib k d s) = bcolemak_layout s"
  "bcolemak_layout (ProcessKeyboardEvents_perspective k s) = bcolemak_layout s"
  "bcolemak_layout (ProcessKeyboardEvents_orthographic k s) = bcolemak_layout s"
  by (simp_all add: PKE_block_defs Let_def)

lemma layout_block_table:
  "key_table (ProcessKeyboardEvents_layout k s) =
     (if k (snd (snd (snd (snd (snd (snd (key_table s))))))) = GLFW_PRESS
      then (if bcolemak_layout s then qwerty_table else colemak_table) else key_table s)"
  "bcolemak_layout (ProcessKeyboardEvents_layout k s) =
     (if k (snd (snd (snd (snd (snd (snd (key_table s))))))) = GLFW_PRESS
      then \<not> bcolemak_layout s else bcolemak_layout s)"
  by (simp_all add: ProcessKeyboardEvents_layout_def key_table_def qwerty_table_def
        colemak_table_def)

lemma camera_blocks:
  "g_pCamera (ProcessKeyboardEvents_perspective k s) =
     (if k GLFW_KEY_P = GLFW_PRESS
      then (g_pCamera s)
             \<lparr> Position := vec3 0 5 12, Front := vec3 0 (-0.5) (-2), Up := vec3 0 1 0 \<rparr>
      else g_pCamera s)"
  "g_pCamera (ProcessKeyboardEvents_orthographic k s) = g_pCamera s"
  "g_pCamera (ProcessKeyboardEvents_layout k s) = g_pCamera s"
  by (simp_all add: PKE_block_defs)

lemma o_camera_position_blocks:
  "o_camera_position (ProcessKeyboardEvents_perspective k s) = o_camera_position s"
  "o_camera_position (ProcessKeyboardEvents_orthographic k s) =
     (if k GLFW_KEY_O = GLFW_PRESS then vec3 0 5 12 else o_camera_position s)"
  "o_camera_position (ProcessKeyboardEvents_layout k s) = o_camera_position s"
  by (simp_all add: PKE_block_defs)

lemma PKE_blocks_released:
  "k GLFW_KEY_ESCAPE \<noteq> GLFW_PRESS \<Longrightarrow> ProcessKeyboardEvents_escape k s = s"
  "k (gkey_forward s) \<noteq> GLFW_PRESS \<Longrightarrow> ProcessKeyboardEvents_forward lib k d s = s"
  "k (gkey_backward s) \<noteq> GLFW_PRESS \<Longrightarrow> ProcessKeyboardEvents_backward lib k d s = s"
  "k (gkey_left s) \<noteq> GLFW_PRESS \<Longrightarrow> ProcessKeyboardEvents_left lib k d s = s"
  "k (gkey_right s) \<noteq> GLFW_PRESS \<Longrightarrow> ProcessKeyboardEvents_right lib k d s = s"
  "k (gkey_up s) \<noteq> GLFW_PRESS \<Longrightarrow> ProcessKeyboardEvents_up lib k d s = s"
  "k (gkey_down s) \<noteq> GLFW_PRESS \<Longrightarrow> ProcessKeyboardEvents_down lib k d s = s"
  "k GLFW_KEY_P \<noteq> GLFW_PRESS \<Longrightarrow> ProcessKeyboardEvents_perspective k s = s"
  "k GLFW_KEY_O \<noteq> GLFW_PRESS \<Longrightarrow> ProcessKeyboardEvents_orthographic k s = s"
  "k (gkey_layout s) \<noteq> GLFW_PRESS \<Longrightarrow> ProcessKeyboardEvents_layout k s = s"
  by (simp_all add: PKE_block_defs)

section \<open>Lemmas: a whole keyboard step\<close>

lemma PKE_o_radius: "o_radius (ProcessKeyboardEvents lib k s) = o_radius s"
  by (simp add: ProcessKeyboardEvents_def Let_def o_radius_blocks)

lemma PKE_o_pitch:
  "o_pitch (ProcessKeyboardEvents lib k s) =
     (if k GLFW_KEY_O = GLFW_PRESS then 0
      else let d = gDeltaTime s * p_scalar s * o_scalar s;
               p = (if k (gkey_forward s) = GLFW_PRESS \<and> bOrthographicProjection s
                    then wrap_0_360 (o_pitch s + d) else o_pitch s);
               p = (if k (gkey_backward s) = GLFW_PRESS \<and> bOrthographicProjection s
                    then wrap_0_360 (p - d) else p)
           in p)"
  by (simp add: ProcessKeyboardEvents_def Let_def o_pitch_blocks flag_blocks o_scalar_blocks
        key_table_fields key_table_blocks)

lemma PKE_o_yaw:
  "o_yaw (ProcessKeyboardEvents lib k s) =
     (if k GLFW_KEY_O = GLFW_PRESS then 0
      else let d = gDeltaTime s * p_scalar s * o_scalar s;
               y = (if k (gkey_left s) = GLFW_PRESS \<and> bOrthographicProjection s
                    then wrap_0_360 (o_yaw s - d) else o_yaw s);
               y = (if k (gkey_right s) = GLFW_PRESS \<and> bOrthographicProjection s
                    then wrap_0_360 (y + d) else y)
           in y)"
  by (simp add: ProcessKeyboardEvents_def Let_def o_yaw_blocks flag_blocks o_scalar_blocks
        key_table_fields key_table_blocks)

lemma PKE_flag:
  "bOrthographicProjection (ProcessKeyboardEvents lib k s) =
     (if k GLFW_KEY_O = GLFW_PRESS then True
      else if k GLFW_KEY_P = GLFW_PRESS then False
      else bOrthographicProjection s)"
  by (simp add: ProcessKeyboardEvents_def Let_def flag_blocks)

lemma PKE_P_pose:
  assumes "k GLFW_KEY_P = GLFW_PRESS"
  shows "Position (g_pCamera (ProcessKeyboardEvents lib k s)) = vec3 0 5 12"
    and "Front (g_pCamera (ProcessKeyboardEvents lib k s)) = vec3 0 (-0.5) (-2)"
    and "Up (g_pCamera (ProcessKeyboardEvents lib k s)) = vec3 0 1 0"
  using assms by (simp_all add: ProcessKeyboardEvents_def Let_def camera_blocks)

lemma PKE_O_pose:
  assumes "k GLFW_KEY_O = GLFW_PRESS"
  shows "o_camera_position (ProcessKeyboardEvents lib k s) = vec3 0 5 12"
  using assms by (simp add: ProcessKeyboardEvents_def Let_def o_camera_position_blocks)

lemma PKE_table:
  "key_table (ProcessKeyboardEvents lib k s) =
     (if k (gkey_layout s) = GLFW_PRESS
      then (if bcolemak_layout s then qwerty_table else colemak_table) else key_table s)"
  "bcolemak_layout (ProcessKeyboardEvents lib k s) =
     (if k (gkey_layout s) = GLFW_PRESS then \<not> bcolemak_layout s else bcolemak_layout s)"
  by (simp_all add: ProcessKeyboardEvents_def Let_def layout_block_table key_table_blocks
        bcolemak_blocks key_table_fields)

lemma PKE_only_layout:
  assumes "layout_state s"
  shows "ProcessKeyboardEvents lib (press (gkey_layout s)) s =
           ProcessKeyboardEvents_layout (press (gkey_layout s)) s"
proof -
  from assms have "key_table s = qwerty_table \<or> key_table s = colemak_table"
    by (auto simp add: layout_state_def)
  then show ?thesis
  proof
    assume "key_table s = qwerty_table"
    then have keys: "gkey_forward s = 87" "gkey_backward s = 83" "gkey_left s = 65"
      "gkey_right s = 68" "gkey_up s = 81" "gkey_down s = 69" "gkey_layout s = 67"
      by (simp_all add: key_table_def qwerty_table_def glfw_defs)
    show ?thesis
      by (simp add: ProcessKeyboardEvents_def PKE_blocks_released keys press_def glfw_defs)
  next
    assume "key_table s = colemak_table"
    then have keys: "gkey_forward s = 70" "gkey_backward s = 83" "gkey_left s = 82"
      "gkey_right s = 84" "gkey_up s = 32" "gkey_down s = 65" "gkey_layout s = 81"
      by (simp_all add: key_table_def colemak_table_def glfw_defs)
    show ?thesis
      by (simp add: ProcessKeyboardEvents_def PKE_blocks_released keys press_def glfw_defs)
  qed
qed

lemma layout_block_twice:
  assumes "layout_state s"
    and "k (gkey_layout s) = GLFW_PRESS"
    and "k' (gkey_layout (ProcessKeyboardEvents_layout k s)) = GLFW_PRESS"
  shows "ProcessKeyboardEvents_layout k' (ProcessKeyboardEvents_layout k s) = s"
  using assms
  by (cases s)
     (auto simp add: layout_state_def key_table_def qwerty_table_def colemak_table_def
        ProcessKeyboardEvents_layout_def)

lemma layout_block_only_table:
  "(ProcessKeyboardEvents_layout k s)
     \<lparr> gkey_forward := gkey_forward s, gkey_backward := gkey_backward s,
       gkey_left := gkey_left s, gkey_right := gkey_right s, gkey_up := gkey_up s,
       gkey_down := gkey_down s, gkey_layout := gkey_layout s,
       bcolemak_layout := bcolemak_layout s \<rparr> = s"
  by (cases s) (simp add: ProcessKeyboardEvents_layout_def)

lemma layout_state_PKE:
  assumes "layout_state s"
  shows "layout_state (ProcessKeyboardEvents lib k s)"
  using assms by (auto simp add: layout_state_def PKE_table)

lemma camera_move_blocks:
  "g_pCamera (ProcessKeyboardEvents_escape k s) = g_pCamera s"
  "g_pCamera (ProcessKeyboardEvents_forward lib k d s) =
     (if k (gkey_forward s) = GLFW_PRESS
      then ProcessKeyboard lib FORWARD d (g_pCamera s) else g_pCamera s)"
  "g_pCamera (ProcessKeyboardEvents_backward lib k d s) =
     (if k (gkey_backward s) = GLFW_PRESS
      then ProcessKeyboard lib BACKWARD d (g_pCamera s) else g_pCamera s)"
  "g_pCamera (ProcessKeyboardEvents_left lib k d s) =
     (if k (gkey_left s) = GLFW_PRESS
      then ProcessKeyboard lib LEFT d (g_pCamera s) else g_pCamera s)"
  "g_pCamera (ProcessKeyboardEvents_right lib k d s) =
     (if k (gkey_right s) = GLFW_PRESS
      then ProcessKeyboard lib RIGHT d (g_pCamera s) else g_pCamera s)"
  "g_pCamera (ProcessKeyboardEvents_up lib k d s) =
     (if k (gkey_up s) = GLFW_PRESS
      then ProcessKeyboard lib UP d (g_pCamera s) else g_pCamera s)"
  "g_pCamera (ProcessKeyboardEvents_down lib k d s) =
     (if k (gkey_down s) = GLFW_PRESS
      then ProcessKeyboard lib DOWN d (g_pCamera s) else g_pCamera s)"
  by (simp_all add: PKE_block_defs Let_def)

lemma key_table_fields_up_down:
  "gkey_up s = fst (snd (snd (snd (snd (key_table s)))))"
  "gkey_down s = fst (snd (snd (snd (snd (snd (key_table s))))))"
  by (simp_all add: key_table_def)

lemma o_camera_position_move_blocks:
  "o_camera_position (ProcessKeyboardEvents_escape k s) = o_camera_position s"
  "o_camera_position (ProcessKeyboardEvents_forward lib k d s) = o_camera_position s"
  "o_camera_position (ProcessKeyboardEvents_backward lib k d s) = o_camera_position s"
  "o_camera_position (ProcessKeyboardEvents_left lib k d s) = o_camera_position s"
  "o_camera_position (ProcessKeyboardEvents_right lib k d s) = o_camera_position s"
  "o_camera_position (ProcessKeyboardEvents_up lib k d s) = o_camera_position s"
  "o_camera_position (ProcessKeyboardEvents_down lib k d s) = o_camera_position s"
  by (simp_all add: PKE_block_defs Let_def)

lemma PKE_camera:
  "g_pCamera (ProcessKeyboardEvents lib k s) =
     (let d = gDeltaTime s * p_scalar s;
          c = g_pCamera s;
          c = (if k (gkey_forward s) = GLFW_PRESS then ProcessKeyboard lib FORWARD d c else c);
          c = (if k (gkey_backward s) = GLFW_PRESS then ProcessKeyboard lib BACKWARD d c else c);
          c = (if k (gkey_left s) = GLFW_PRESS then ProcessKeyboard lib LEFT d c else c);
          c = (if k (gkey_right s) = GLFW_PRESS then ProcessKeyboard lib RIGHT d c else c);
          c = (if k (gkey_up s) = GLFW_PRESS then ProcessKeyboard lib UP d c else c);
          c = (if k (gkey_down s) = GLFW_PRESS then ProcessKeyboard lib DOWN d c else c)
      in if k GLFW_KEY_P = GLFW_PRESS
         then c\<lparr> Position := vec3 0 5 12, Front := vec3 0 (-0.5) (-2), Up := vec3 0 1 0 \<rparr>
         else c)"
  by (simp add: ProcessKeyboardEvents_def Let_def camera_blocks camera_move_blocks
        key_table_fields key_table_fields_up_down key_table_blocks)

lemma PKE_o_camera_position:
  "o_camera_position (ProcessKeyboardEvents lib k s) =
     (if k GLFW_KEY_O = GLFW_PRESS then vec3 0 5 12 else o_camera_position s)"
  by (simp add: ProcessKeyboardEvents_def Let_def o_camera_position_blocks
        o_camera_position_move_blocks)

lemma PKE_camera_ignores_orbit:
  "g_pCamera (ProcessKeyboardEvents lib k
      (s\<lparr> o_yaw := a, o_pitch := b, o_radius := r, o_camera_position := q \<rparr>)) =
   g_pCamera (ProcessKeyboardEvents lib k s)"
  by (simp add: PKE_camera Let_def)

lemma PKE_orbit_ignores_camera:
  "o_yaw (ProcessKeyboardEvents lib k (s\<lparr> g_pCamera := c \<rparr>)) =
     o_yaw (ProcessKeyboardEvents lib k s)"
  "o_pitch (ProcessKeyboardEvents lib k (s\<lparr> g_pCamera := c \<rparr>)) =
     o_pitch (ProcessKeyboardEvents lib k s)"
  "o_radius (ProcessKeyboardEvents lib k (s\<lparr> g_pCamera := c \<rparr>)) =
     o_radius (ProcessKeyboardEvents lib k s)"
  "o_camera_position (ProcessKeyboardEvents lib k (s\<lparr> g_pCamera := c \<rparr>)) =
     o_camera_position (ProcessKeyboardEvents lib k s)"
  by (simp_all add: PKE_o_yaw PKE_o_pitch PKE_o_radius PKE_o_camera_position Let_def)

lemma PKE_o_pitch_one_key:
  assumes "bOrthographicProjection s" and "k GLFW_KEY_O \<noteq> GLFW_PRESS"
  shows "k (gkey_forward s) = GLFW_PRESS \<Longrightarrow> k (gkey_backward s) \<noteq> GLFW_PRESS \<Longrightarrow>
           o_pitch (ProcessKeyboardEvents lib k s) =
             wrap_0_360 (o_pitch s + gDeltaTime s * p_scalar s * o_scalar s)"
    and "k (gkey_backward s) = GLFW_PRESS \<Longrightarrow> k (gkey_forward s) \<noteq> GLFW_PRESS \<Longrightarrow>
           o_pitch (ProcessKeyboardEvents lib k s) =
             wrap_0_360 (o_pitch s - gDeltaTime s * p_scalar s * o_scalar s)"
  using assms by (simp_all add: PKE_o_pitch Let_def)

lemma PKE_o_yaw_one_key:
  assumes "bOrthographicProjection s" and "k GLFW_KEY_O \<noteq> GLFW_PRESS"
  shows "k (gkey_left s) = GLFW_PRESS \<Longrightarrow> k (gkey_right s) \<noteq> GLFW_PRESS \<Longrightarrow>
           o_yaw (ProcessKeyboardEvents lib k s) =
             wrap_0_360 (o_yaw s - gDeltaTime s * p_scalar s * o_scalar s)"
    and "k (gkey_right s) = GLFW_PRESS \<Longrightarrow> k (gkey_left s) \<noteq> GLFW_PRESS \<Longrightarrow>
           o_yaw (ProcessKeyboardEvents lib k s) =
             wrap_0_360 (o_yaw s + gDeltaTime s * p_scalar s * o_scalar s)"
  using assms by (simp_all add: PKE_o_yaw Let_def)

section \<open>Lemmas: the mouse callbacks, the orbit camera and a frame\<close>




lemma mouse_o_radius:
  "o_radius (Mouse_Position_Callback lib x y s) = o_radius s"
  "o_radius (Mouse_Scroll_Wheel_Callback x y s) = o_radius s"
  by (simp_all add: Mouse_Position_Callback_def Mouse_Scroll_Wheel_Callback_def Let_def)

lemma update_o_radius: "o_radius (update_o_camera_position s) = o_radius s"
  by (simp add: update_o_camera_position_def)

lemma spherical_sum_squares:
  fixes a b c d r :: real
  assumes "a\<^sup>2 + c\<^sup>2 = 1" and "b\<^sup>2 + d\<^sup>2 = 1"
  shows "(a * b * r)\<^sup>2 + (d * r)\<^sup>2 + (c * b * r)\<^sup>2 = r\<^sup>2"
proof -
  have "(a * b * r)\<^sup>2 + (d * r)\<^sup>2 + (c * b * r)\<^sup>2
      = r\<^sup>2 * (b\<^sup>2 * (a\<^sup>2 + c\<^sup>2) + d\<^sup>2)"
    by (simp add: power2_eq_square algebra_simps)
  also have "\<dots> = r\<^sup>2" using assms by simp
  finally show ?thesis .
qed

lemma update_length:
  "vec_length (o_camera_position (update_o_camera_position s)) = \<bar>o_radius s\<bar>"
  by (simp add: vec_length_def update_o_camera_position_def spherical_sum_squares)

lemma PSV_state:
  "fst (PrepareSceneView lib g t k s) =
     (let s1 = ProcessKeyboardEvents lib k
                 (s\<lparr> gDeltaTime := t - gLastFrame s, gLastFrame := t \<rparr>)
      in if bOrthographicProjection s1 then update_o_camera_position s1 else s1)"
  by (simp add: PrepareSceneView_def Let_def)

lemma PSV_view:
  "fst (snd (PrepareSceneView lib g t k s)) =
     (let s1 = ProcessKeyboardEvents lib k
                 (s\<lparr> gDeltaTime := t - gLastFrame s, gLastFrame := t \<rparr>)
      in if bOrthographicProjection s1
         then lookAt g
                (vec3 (cos (radians (o_yaw s1)) * cos (radians (o_pitch s1)) * o_radius s1)
                      (sin (radians (o_pitch s1)) * o_radius s1)
                      (sin (radians (o_yaw s1)) * cos (radians (o_pitch s1)) * o_radius s1))
                (vec3 0 0 0) (vec3 0 1 0)
         else GetViewMatrix lib (g_pCamera s1))"
  by (simp add: PrepareSceneView_def Let_def update_o_camera_position_def)

lemma PSV_projection:
  "fst (snd (snd (PrepareSceneView lib g t k s))) =
     (let s1 = ProcessKeyboardEvents lib k
                 (s\<lparr> gDeltaTime := t - gLastFrame s, gLastFrame := t \<rparr>)
      in if bOrthographicProjection s1
         then ortho g (-20) 20 (-16) 16 0.1 100
         else perspective g (radians (Zoom (g_pCamera s1))) 1.25 0.1 100)"
  by (simp add: PrepareSceneView_def Let_def WINDOW_WIDTH_def WINDOW_HEIGHT_def)

lemma PSV_o_radius: "o_radius (fst (PrepareSceneView lib g t k s)) = o_radius s"
  by (simp add: PSV_state Let_def update_o_radius PKE_o_radius)

lemma dispatch_o_radius: "o_radius (dispatch lib g s e) = o_radius s"
  by (cases e) (simp_all add: mouse_o_radius PKE_o_radius PSV_o_radius)

lemma run_o_radius: "o_radius (run lib g es s) = o_radius s"
  unfolding run_def by (induction es arbitrary: s) (simp_all add: dispatch_o_radius)

section \<open>Lemmas: SceneManager.cpp\<close>

lemma FindMaterial_loop_found: "FindMaterial_loop ms t i True m = m"
  by (subst FindMaterial_loop.simps) simp

lemma FindMaterial_loop_find:
  "FindMaterial_loop ms t i False m =
     (case find (\<lambda>e. tag e = t) (drop i ms) of None \<Rightarrow> m | Some e \<Rightarrow> copy_material e m)"
proof (induction "length ms - i" arbitrary: i)
  case 0
  then show ?case by (subst FindMaterial_loop.simps) simp
next
  case (Suc n)
  then have i: "i < length ms" and n: "n = length ms - Suc i" by simp_all
  have d: "drop i ms = ms ! i # drop (Suc i) ms"
    using i by (simp add: Cons_nth_drop_Suc)
  show ?case
  proof (cases "tag (ms ! i) = t")
    case True
    then show ?thesis using i d
      by (subst FindMaterial_loop.simps) (simp add: copy_material_def FindMaterial_loop_found)
  next
    case False
    then show ?thesis using i d Suc.hyps(1)[OF n]
      by (subst FindMaterial_loop.simps) simp
  qed
qed

lemma FindMaterial_result:
  "FindMaterial s t m =
     (m_objectMaterials s \<noteq> [],
      case find (\<lambda>e. tag e = t) (m_objectMaterials s) of
        None \<Rightarrow> m | Some e \<Rightarrow> copy_material e m)"
  by (cases "m_objectMaterials s") (simp_all add: FindMaterial_def FindMaterial_loop_find)

lemma CreateGLTexture_eq:
  "CreateGLTexture io f t s =
     (if loadable io f
      then (True,
            s\<lparr> m_textureIDs := (m_textureIDs s)(m_loadedTextures s \<mapsto> (glGenTextures io f, t)),
               m_loadedTextures := m_loadedTextures s + 1 \<rparr>)
      else (False, s))"
  by (auto simp add: CreateGLTexture_def loadable_def Let_def split: option.splits)

lemma LoadSceneTextures_returns:
  assumes "textures_load io"
  shows "\<exists>s'. LoadSceneTextures io s = Inr s' \<and> m_basicMeshes s' = m_basicMeshes s"
  using assms
  by (simp add: textures_load_def texture_files_def LoadSceneTextures_def CreateGLTexture_eq)

lemma LoadSceneTextures_exits:
  assumes "\<not> textures_load io"
  shows "LoadSceneTextures io s = Inl (Exit 1)"
  using assms
  by (auto simp add: textures_load_def texture_files_def LoadSceneTextures_def
        CreateGLTexture_eq)

lemma PrepareScene_returns:
  assumes "textures_load io"
  shows "\<exists>s'. PrepareScene io s = Inr s'
           \<and> m_basicMeshes s' =
               m_basicMeshes s
                 @ [LoadMesh PlaneMesh, LoadMesh BoxMesh, LoadMesh SphereMesh,
                    LoadMesh CylinderMesh, LoadMesh PrismMesh]"
proof -
  obtain s' where "LoadSceneTextures io (DefineObjectMaterials s) = Inr s'"
    and "m_basicMeshes s' = m_basicMeshes (DefineObjectMaterials s)"
    using LoadSceneTextures_returns[OF assms] by blast
  then show ?thesis by (simp add: PrepareScene_def DefineObjectMaterials_def Let_def)
qed

lemma PrepareScene_exits:
  assumes "\<not> textures_load io"
  shows "PrepareScene io s = Inl (Exit 1)"
  by (simp add: PrepareScene_def LoadSceneTextures_exits[OF assms])

lemma RenderScene_draws:
  "set RenderScene = DrawMesh ` {PlaneMesh, BoxMesh, SphereMesh, CylinderMesh, PrismMesh}"
  by (auto simp add: RenderScene_def drawDesk_def drawWalls_def drawKeyboard_def
        drawTrackball_def drawPrimaryMonitor_def drawSecondaryMonitor_def drawTower_def)

lemma fixtures_load: "textures_load rgba_files" "\<not> textures_load no_files"
  by (simp_all add: textures_load_def texture_files_def loadable_def rgba_files_def
        no_files_def)


section \<open>Evaluations at concrete inputs\<close>

lemma PrepareSceneView_orthographic_example:
  "snd (PrepareSceneView fly_camera glm_terms 1 (press GLFW_KEY_O) (ViewManager fly_camera True)) =
     (LookAt (vec3 10 0 0) (vec3 0 0 0) (vec3 0 1 0),
      Ortho (-20) 20 (-16) 16 0.1 100,
      [setMat4Value ''view'' (LookAt (vec3 10 0 0) (vec3 0 0 0) (vec3 0 1 0)),
       setMat4Value ''projection'' (Ortho (-20) 20 (-16) 16 0.1 100),
       setVec3Value ''viewPosition'' (vec3 0 5 12)])"
  by (simp add: PrepareSceneView_def ProcessKeyboardEvents_def PKE_block_defs Let_def
        update_o_camera_position_def ViewManager_def fly_camera_def glm_terms_def press_def
        glfw_defs radians_def WINDOW_WIDTH_def WINDOW_HEIGHT_def g_ViewName_def
        g_ProjectionName_def)

lemma PrepareSceneView_perspective_example:
  "snd (PrepareSceneView fly_camera glm_terms 1 released (ViewManager fly_camera False)) =
     (LookAt (vec3 0 5 12) (vec3 0 4.5 10) (vec3 0 1 0),
      Perspective (radians 80) 1.25 0.1 100,
      [])"
  by (simp add: PrepareSceneView_def ProcessKeyboardEvents_def PKE_block_defs Let_def
        ViewManager_def fly_camera_def glm_terms_def released_def vec_add_def
        glfw_defs WINDOW_WIDTH_def WINDOW_HEIGHT_def)

lemma FindMaterial_examples:
  "FindMaterial (DefineObjectMaterials SceneManager) ''steel'' m = (True, m)"
  "FindMaterial SceneManager ''glass'' m = (False, m)"
  "FindMaterial (DefineObjectMaterials SceneManager) ''glass'' m =
     (True,
      m\<lparr> ambientColor := vec3 0.1 0.1 0.1, ambientStrength := 0.3,
         diffuseColor := vec3 0.2 0.2 0.2, specularColor := vec3 0.8 0.8 0.8,
         shininess := 64 \<rparr>)"
  by (simp_all add: FindMaterial_result DefineObjectMaterials_def SceneManager_def
        copy_material_def)

lemma SetShaderMaterial_miss:
  assumes "m_objectMaterials s \<noteq> []"
    and "find (\<lambda>entry. tag entry = t) (m_objectMaterials s) = None"
  shows "SetShaderMaterial s t uninitialised =
           [setVec3Value ''material.ambientColor'' (ambientColor uninitialised),
            setFloatValue ''material.ambientStrength'' (ambientStrength uninitialised),
            setVec3Value ''material.diffuseColor'' (diffuseColor uninitialised),
            setVec3Value ''material.specularColor'' (specularColor uninitialised),
            setFloatValue ''material.shininess'' (shininess uninitialised)]"
  using assms by (simp add: SetShaderMaterial_def FindMaterial_result)


section \<open>The claims about ViewManager.cpp\<close>

text \<open>
  C1. In a call of \<open>PrepareSceneView\<close> the flag \<open>bOrthographicProjection\<close>, as it
  stands after the keyboard has been processed (state \<open>s1\<close>), selects one of two
  constructions. When it is set, the view is \<open>lookAt\<close> from the orbit-camera position
  (recomputed from yaw, pitch and radius) to the origin with up (0,1,0), and the
  projection is the fixed \<open>ortho\<close> frustum; when it is not, the view is the camera's
  view matrix and the projection is \<open>perspective\<close> of the camera's zoom and the window's
  aspect ratio.
\<close>

theorem PrepareSceneView_selects_by_flag:
  "(let s1 = ProcessKeyboardEvents lib glfwGetKey
               (s\<lparr> gDeltaTime := t - gLastFrame s, gLastFrame := t \<rparr>);
        (s', view, projection, calls) = PrepareSceneView lib g t glfwGetKey s
    in view =
         (if bOrthographicProjection s1
          then lookAt g (o_camera_position s') (vec3 0 0 0) (vec3 0 1 0)
          else GetViewMatrix lib (g_pCamera s1))
       \<and> projection =
         (if bOrthographicProjection s1
          then ortho g (- real_of_int WINDOW_WIDTH * 0.02) (real_of_int WINDOW_WIDTH * 0.02)
                 (- real_of_int WINDOW_HEIGHT * 0.02) (real_of_int WINDOW_HEIGHT * 0.02)
                 0.1 100
          else perspective g (radians (Zoom (g_pCamera s1)))
                 (real_of_int WINDOW_WIDTH / real_of_int WINDOW_HEIGHT) 0.1 100)
       \<and> o_camera_position s' =
         (if bOrthographicProjection s1
          then vec3 (cos (radians (o_yaw s1)) * cos (radians (o_pitch s1)) * o_radius s1)
                    (sin (radians (o_pitch s1)) * o_radius s1)
                    (sin (radians (o_yaw s1)) * cos (radians (o_pitch s1)) * o_radius s1)
          else o_camera_position s1)
       \<and> bOrthographicProjection s' = bOrthographicProjection s1)"
  by (simp add: PrepareSceneView_def Let_def update_o_camera_position_def)

text \<open>
  C2, as the code has it. In a keyboard step with P held, the camera's position, front
  and up are the fixed defaults afterwards, and the flag is off afterwards unless O is
  held in the same step (the block of O runs after the block of P, so with both held the
  flag ends on). With O held, the flag is on and the orbit camera is at yaw 0, pitch 0
  and its own radius afterwards. Neither key converts state between the two cameras: the
  block of P writes three constant vectors into the camera object and the flag and
  nothing else (yaw, pitch, zoom and speed of the camera object stay), the block of O
  writes constants into the orbit position, the two angles and the flag and nothing
  else; over a whole step the camera object does not depend on the orbit camera the
  step starts from, and the orbit camera does not depend on the camera object.
\<close>

theorem mode_keys_reset_to_defaults:
  "(glfwGetKey GLFW_KEY_P = GLFW_PRESS \<longrightarrow>
      Position (g_pCamera (ProcessKeyboardEvents lib glfwGetKey s)) = vec3 0 5 12
      \<and> Front (g_pCamera (ProcessKeyboardEvents lib glfwGetKey s)) = vec3 0 (-0.5) (-2)
      \<and> Up (g_pCamera (ProcessKeyboardEvents lib glfwGetKey s)) = vec3 0 1 0
      \<and> bOrthographicProjection (ProcessKeyboardEvents lib glfwGetKey s) =
          (glfwGetKey GLFW_KEY_O = GLFW_PRESS))
   \<and> (glfwGetKey GLFW_KEY_O = GLFW_PRESS \<longrightarrow>
      bOrthographicProjection (ProcessKeyboardEvents lib glfwGetKey s) = True
      \<and> o_yaw (ProcessKeyboardEvents lib glfwGetKey s) = 0
      \<and> o_pitch (ProcessKeyboardEvents lib glfwGetKey s) = 0
      \<and> o_radius (ProcessKeyboardEvents lib glfwGetKey s) = o_radius s
      \<and> o_camera_position (ProcessKeyboardEvents lib glfwGetKey s) = vec3 0 5 12)
   \<and> (glfwGetKey GLFW_KEY_P = GLFW_PRESS \<longrightarrow>
      ProcessKeyboardEvents_perspective glfwGetKey s =
        s\<lparr> g_pCamera := (g_pCamera s)
               \<lparr> Position := vec3 0 5 12, Front := vec3 0 (-0.5) (-2), Up := vec3 0 1 0 \<rparr>,
           bOrthographicProjection := False \<rparr>)
   \<and> (glfwGetKey GLFW_KEY_O = GLFW_PRESS \<longrightarrow>
      ProcessKeyboardEvents_orthographic glfwGetKey s =
        s\<lparr> o_camera_position := vec3 0 5 12, o_yaw := 0, o_pitch := 0,
           bOrthographicProjection := True \<rparr>)
   \<and> o_yaw (ProcessKeyboardEvents_perspective glfwGetKey s) = o_yaw s
   \<and> o_pitch (ProcessKeyboardEvents_perspective glfwGetKey s) = o_pitch s
   \<and> o_radius (ProcessKeyboardEvents_perspective glfwGetKey s) = o_radius s
   \<and> o_camera_position (ProcessKeyboardEvents_perspective glfwGetKey s) = o_camera_position s
   \<and> g_pCamera (ProcessKeyboardEvents_orthographic glfwGetKey s) = g_pCamera s
   \<and> g_pCamera (ProcessKeyboardEvents lib glfwGetKey
        (s\<lparr> o_yaw := a, o_pitch := b, o_radius := r, o_camera_position := q \<rparr>)) =
       g_pCamera (ProcessKeyboardEvents lib glfwGetKey s)
   \<and> o_yaw (ProcessKeyboardEvents lib glfwGetKey (s\<lparr> g_pCamera := c \<rparr>)) =
       o_yaw (ProcessKeyboardEvents lib glfwGetKey s)
   \<and> o_pitch (ProcessKeyboardEvents lib glfwGetKey (s\<lparr> g_pCamera := c \<rparr>)) =
       o_pitch (ProcessKeyboardEvents lib glfwGetKey s)
   \<and> o_radius (ProcessKeyboardEvents lib glfwGetKey (s\<lparr> g_pCamera := c \<rparr>)) =
       o_radius (ProcessKeyboardEvents lib glfwGetKey s)
   \<and> o_camera_position (ProcessKeyboardEvents lib glfwGetKey (s\<lparr> g_pCamera := c \<rparr>)) =
       o_camera_position (ProcessKeyboardEvents lib glfwGetKey s)"
proof -
  have step: "(glfwGetKey GLFW_KEY_P = GLFW_PRESS \<longrightarrow>
      Position (g_pCamera (ProcessKeyboardEvents lib glfwGetKey s)) = vec3 0 5 12
      \<and> Front (g_pCamera (ProcessKeyboardEvents lib glfwGetKey s)) = vec3 0 (-0.5) (-2)
      \<and> Up (g_pCamera (ProcessKeyboardEvents lib glfwGetKey s)) = vec3 0 1 0
      \<and> bOrthographicProjection (ProcessKeyboardEvents lib glfwGetKey s) =
          (glfwGetKey GLFW_KEY_O = GLFW_PRESS))
   \<and> (glfwGetKey GLFW_KEY_O = GLFW_PRESS \<longrightarrow>
      bOrthographicProjection (ProcessKeyboardEvents lib glfwGetKey s) = True
      \<and> o_yaw (ProcessKeyboardEvents lib glfwGetKey s) = 0
      \<and> o_pitch (ProcessKeyboardEvents lib glfwGetKey s) = 0
      \<and> o_radius (ProcessKeyboardEvents lib glfwGetKey s) = o_radius s
      \<and> o_camera_position (ProcessKeyboardEvents lib glfwGetKey s) = vec3 0 5 12)"
    by (simp add: PKE_P_pose PKE_O_pose PKE_flag PKE_o_yaw PKE_o_pitch PKE_o_radius)
  have blocks: "(glfwGetKey GLFW_KEY_P = GLFW_PRESS \<longrightarrow>
      ProcessKeyboardEvents_perspective glfwGetKey s =
        s\<lparr> g_pCamera := (g_pCamera s)
               \<lparr> Position := vec3 0 5 12, Front := vec3 0 (-0.5) (-2), Up := vec3 0 1 0 \<rparr>,
           bOrthographicProjection := False \<rparr>)
   \<and> (glfwGetKey GLFW_KEY_O = GLFW_PRESS \<longrightarrow>
      ProcessKeyboardEvents_orthographic glfwGetKey s =
        s\<lparr> o_camera_position := vec3 0 5 12, o_yaw := 0, o_pitch := 0,
           bOrthographicProjection := True \<rparr>)"
    by (simp add: ProcessKeyboardEvents_perspective_def ProcessKeyboardEvents_orthographic_def)
  have frames: "o_yaw (ProcessKeyboardEvents_perspective glfwGetKey s) = o_yaw s
   \<and> o_pitch (ProcessKeyboardEvents_perspective glfwGetKey s) = o_pitch s
   \<and> o_radius (ProcessKeyboardEvents_perspective glfwGetKey s) = o_radius s
   \<and> o_camera_position (ProcessKeyboardEvents_perspective glfwGetKey s) = o_camera_position s
   \<and> g_pCamera (ProcessKeyboardEvents_orthographic glfwGetKey s) = g_pCamera s"
    by (simp add: o_yaw_blocks o_pitch_blocks o_radius_blocks o_camera_position_blocks
          camera_blocks)
  show ?thesis
    using step blocks frames
      PKE_camera_ignores_orbit [where lib = lib and k = glfwGetKey and s = s and a = a
        and b = b and r = r and q = q]
      PKE_orbit_ignores_camera [where lib = lib and k = glfwGetKey and s = s and c = c]
    by blast
qed

theorem mode_keys_reset_to_defaults_witness:
  "press GLFW_KEY_P GLFW_KEY_P = GLFW_PRESS
   \<and> Position (g_pCamera (ProcessKeyboardEvents fly_camera (press GLFW_KEY_P)
        ((ViewManager fly_camera True)\<lparr> bOrthographicProjection := True, o_yaw := 40 \<rparr>)))
      = vec3 0 5 12
   \<and> \<not> bOrthographicProjection (ProcessKeyboardEvents fly_camera (press GLFW_KEY_P)
        ((ViewManager fly_camera True)\<lparr> bOrthographicProjection := True, o_yaw := 40 \<rparr>))
   \<and> press GLFW_KEY_O GLFW_KEY_O = GLFW_PRESS
   \<and> bOrthographicProjection (ProcessKeyboardEvents fly_camera (press GLFW_KEY_O)
        ((ViewManager fly_camera True)\<lparr> o_yaw := 40 \<rparr>))
   \<and> o_yaw (ProcessKeyboardEvents fly_camera (press GLFW_KEY_O)
        ((ViewManager fly_camera True)\<lparr> o_yaw := 40 \<rparr>)) = 0"
proof -
  have p: "press GLFW_KEY_P GLFW_KEY_P = GLFW_PRESS" "press GLFW_KEY_P GLFW_KEY_O \<noteq> GLFW_PRESS"
    and o: "press GLFW_KEY_O GLFW_KEY_O = GLFW_PRESS"
    by (simp_all add: press_def glfw_defs)
  show ?thesis
    using
      mode_keys_reset_to_defaults [where glfwGetKey = "press GLFW_KEY_P" and lib = fly_camera
        and s = "(ViewManager fly_camera True)\<lparr> bOrthographicProjection := True, o_yaw := 40 \<rparr>",
        THEN conjunct1]
      mode_keys_reset_to_defaults [where glfwGetKey = "press GLFW_KEY_O" and lib = fly_camera
        and s = "(ViewManager fly_camera True)\<lparr> o_yaw := 40 \<rparr>",
        THEN conjunct2, THEN conjunct1]
      p o
    by simp
qed

text \<open>
  C2 as stated fails: in a keyboard step from the initial state with P and O both held,
  P is held and the flag is on afterwards.
\<close>

theorem mode_keys_both_held_counterexample:
  "press_both GLFW_KEY_P GLFW_KEY_O GLFW_KEY_P = GLFW_PRESS
   \<and> bOrthographicProjection
       (ProcessKeyboardEvents fly_camera (press_both GLFW_KEY_P GLFW_KEY_O)
          (ViewManager fly_camera True))"
  by (simp add: PKE_flag press_both_def glfw_defs)

text \<open>
  C3. After \<open>update_o_camera_position\<close> the orbit-camera position is the spherical
  to Cartesian conversion of yaw, pitch and radius, and, the radius not being negative
  (it is 10 throughout), its Euclidean length is the radius, for every yaw and pitch.
\<close>

theorem orbit_position_on_sphere:
  assumes "0 \<le> o_radius s"
  shows "o_camera_position (update_o_camera_position s) =
           vec3 (cos (radians (o_yaw s)) * cos (radians (o_pitch s)) * o_radius s)
                (sin (radians (o_pitch s)) * o_radius s)
                (sin (radians (o_yaw s)) * cos (radians (o_pitch s)) * o_radius s)
         \<and> vec_length (o_camera_position (update_o_camera_position s)) = o_radius s"
  using assms by (simp add: update_length) (simp add: update_o_camera_position_def)

theorem orbit_position_on_sphere_witness:
  "0 \<le> o_radius ((ViewManager fly_camera True)\<lparr> o_yaw := 30, o_pitch := 45 \<rparr>)
   \<and> vec_length (o_camera_position (update_o_camera_position
        ((ViewManager fly_camera True)\<lparr> o_yaw := 30, o_pitch := 45 \<rparr>))) = 10"
proof -
  let ?s = "(ViewManager fly_camera True)\<lparr> o_yaw := 30, o_pitch := 45 \<rparr>"
  have r: "o_radius ?s = 10"
    by (simp add: ViewManager_def)
  then have h: "0 \<le> o_radius ?s"
    by simp
  show ?thesis
    using orbit_position_on_sphere [OF h, THEN conjunct2] h r by simp
qed





text \<open>
  C6. From either layout state, a keyboard step with the layout key held puts the
  other table into the seven key-code variables and flips \<open>bcolemak_layout\<close>, and a
  second such step restores the table and the flag. With only the layout key held the
  step changes nothing but the table and the flag, and two such steps give back the
  state they started from.
\<close>

theorem layout_toggle_involution:
  assumes "layout_state s"
    and "k (gkey_layout s) = GLFW_PRESS"
    and "k' (gkey_layout (ProcessKeyboardEvents lib k s)) = GLFW_PRESS"
  shows "key_table (ProcessKeyboardEvents lib k s) =
           (if bcolemak_layout s then qwerty_table else colemak_table)
         \<and> bcolemak_layout (ProcessKeyboardEvents lib k s) = (\<not> bcolemak_layout s)
         \<and> layout_state (ProcessKeyboardEvents lib k s)
         \<and> key_table (ProcessKeyboardEvents lib k' (ProcessKeyboardEvents lib k s)) = key_table s
         \<and> bcolemak_layout (ProcessKeyboardEvents lib k' (ProcessKeyboardEvents lib k s)) =
             bcolemak_layout s
         \<and> (ProcessKeyboardEvents lib (press (gkey_layout s)) s)
             \<lparr> gkey_forward := gkey_forward s, gkey_backward := gkey_backward s,
               gkey_left := gkey_left s, gkey_right := gkey_right s, gkey_up := gkey_up s,
               gkey_down := gkey_down s, gkey_layout := gkey_layout s,
               bcolemak_layout := bcolemak_layout s \<rparr> = s
         \<and> ProcessKeyboardEvents lib
             (press (gkey_layout (ProcessKeyboardEvents lib (press (gkey_layout s)) s)))
             (ProcessKeyboardEvents lib (press (gkey_layout s)) s) = s"
proof -
  let ?s1 = "ProcessKeyboardEvents lib k s"
  let ?t1 = "ProcessKeyboardEvents lib (press (gkey_layout s)) s"
  have table1: "key_table ?s1 = (if bcolemak_layout s then qwerty_table else colemak_table)"
    and flag1: "bcolemak_layout ?s1 = (\<not> bcolemak_layout s)"
    using assms(2) by (simp_all add: PKE_table)
  have state1: "layout_state ?s1"
    using assms(1) by (rule layout_state_PKE)
  have table2: "key_table (ProcessKeyboardEvents lib k' ?s1) = key_table s"
    and flag2: "bcolemak_layout (ProcessKeyboardEvents lib k' ?s1) = bcolemak_layout s"
    using assms(1,3) flag1 by (auto simp add: PKE_table layout_state_def)
  have only: "?t1 = ProcessKeyboardEvents_layout (press (gkey_layout s)) s"
    using assms(1) by (rule PKE_only_layout)
  have frame: "?t1\<lparr> gkey_forward := gkey_forward s, gkey_backward := gkey_backward s,
       gkey_left := gkey_left s, gkey_right := gkey_right s, gkey_up := gkey_up s,
       gkey_down := gkey_down s, gkey_layout := gkey_layout s,
       bcolemak_layout := bcolemak_layout s \<rparr> = s"
    unfolding only by (rule layout_block_only_table)
  have "layout_state ?t1"
    using assms(1) by (rule layout_state_PKE)
  then have "ProcessKeyboardEvents lib (press (gkey_layout ?t1)) ?t1 =
      ProcessKeyboardEvents_layout (press (gkey_layout ?t1)) ?t1"
    by (rule PKE_only_layout)
  also have "\<dots> = s"
    unfolding only
    by (rule layout_block_twice [OF assms(1)]) (simp_all add: press_def)
  finally have twice: "ProcessKeyboardEvents lib (press (gkey_layout ?t1)) ?t1 = s" .
  from table1 flag1 state1 table2 flag2 frame twice show ?thesis by blast
qed

theorem layout_toggle_involution_witness:
  "layout_state (ViewManager fly_camera True)
   \<and> press GLFW_KEY_C (gkey_layout (ViewManager fly_camera True)) = GLFW_PRESS
   \<and> press GLFW_KEY_Q (gkey_layout
        (ProcessKeyboardEvents fly_camera (press GLFW_KEY_C) (ViewManager fly_camera True)))
      = GLFW_PRESS
   \<and> key_table (ProcessKeyboardEvents fly_camera (press GLFW_KEY_C)
        (ViewManager fly_camera True)) = colemak_table
   \<and> bcolemak_layout (ProcessKeyboardEvents fly_camera (press GLFW_KEY_C)
        (ViewManager fly_camera True))
   \<and> key_table (ProcessKeyboardEvents fly_camera (press GLFW_KEY_Q)
        (ProcessKeyboardEvents fly_camera (press GLFW_KEY_C) (ViewManager fly_camera True)))
      = qwerty_table"
proof -
  let ?s = "ViewManager fly_camera True"
  have a: "layout_state ?s"
    by (simp add: layout_state_def key_table_def qwerty_table_def ViewManager_def)
  have b: "press GLFW_KEY_C (gkey_layout ?s) = GLFW_PRESS"
    by (simp add: press_def ViewManager_def)
  have c: "press GLFW_KEY_Q
      (gkey_layout (ProcessKeyboardEvents fly_camera (press GLFW_KEY_C) ?s)) = GLFW_PRESS"
    using b by (simp add: key_table_fields PKE_table colemak_table_def press_def)
      (simp add: ViewManager_def)
  have d: "key_table ?s = qwerty_table" "\<not> bcolemak_layout ?s"
    by (simp_all add: key_table_def qwerty_table_def ViewManager_def)
  show ?thesis
    using layout_toggle_involution [where s = "?s" and lib = fly_camera
        and k = "press GLFW_KEY_C" and k' = "press GLFW_KEY_Q"] a b c d
    by simp
qed

text \<open>
  C8. A keyboard step entered with both orbit angles within 0 and 360 leaves both
  within 0 and 360. Each of the four handlers that changes an angle (in orthographic
  mode, its key held) leaves 0 where the new value is above 360, 359.9 where it is below
  0, and the new value otherwise; so does a whole step in which one key of a pair is
  held and O is not.
\<close>

theorem orbit_angles_stay_in_range:
  "(0 \<le> o_yaw s \<and> o_yaw s \<le> 360 \<and> 0 \<le> o_pitch s \<and> o_pitch s \<le> 360 \<longrightarrow>
      0 \<le> o_yaw (ProcessKeyboardEvents lib glfwGetKey s)
      \<and> o_yaw (ProcessKeyboardEvents lib glfwGetKey s) \<le> 360
      \<and> 0 \<le> o_pitch (ProcessKeyboardEvents lib glfwGetKey s)
      \<and> o_pitch (ProcessKeyboardEvents lib glfwGetKey s) \<le> 360)
   \<and> (bOrthographicProjection s \<and> glfwGetKey (gkey_forward s) = GLFW_PRESS \<longrightarrow>
      o_pitch (ProcessKeyboardEvents_forward lib glfwGetKey d s) =
        (let a = o_pitch s + d * o_scalar s
         in if 360 < a then 0 else if a < 0 then 359.9 else a))
   \<and> (bOrthographicProjection s \<and> glfwGetKey (gkey_backward s) = GLFW_PRESS \<longrightarrow>
      o_pitch (ProcessKeyboardEvents_backward lib glfwGetKey d s) =
        (let a = o_pitch s - d * o_scalar s
         in if 360 < a then 0 else if a < 0 then 359.9 else a))
   \<and> (bOrthographicProjection s \<and> glfwGetKey (gkey_left s) = GLFW_PRESS \<longrightarrow>
      o_yaw (ProcessKeyboardEvents_left lib glfwGetKey d s) =
        (let a = o_yaw s - d * o_scalar s
         in if 360 < a then 0 else if a < 0 then 359.9 else a))
   \<and> (bOrthographicProjection s \<and> glfwGetKey (gkey_right s) = GLFW_PRESS \<longrightarrow>
      o_yaw (ProcessKeyboardEvents_right lib glfwGetKey d s) =
        (let a = o_yaw s + d * o_scalar s
         in if 360 < a then 0 else if a < 0 then 359.9 else a))
   \<and> (bOrthographicProjection s \<and> glfwGetKey GLFW_KEY_O \<noteq> GLFW_PRESS
       \<and> glfwGetKey (gkey_forward s) = GLFW_PRESS
       \<and> glfwGetKey (gkey_backward s) \<noteq> GLFW_PRESS \<longrightarrow>
      o_pitch (ProcessKeyboardEvents lib glfwGetKey s) =
        (let a = o_pitch s + gDeltaTime s * p_scalar s * o_scalar s
         in if 360 < a then 0 else if a < 0 then 359.9 else a))
   \<and> (bOrthographicProjection s \<and> glfwGetKey GLFW_KEY_O \<noteq> GLFW_PRESS
       \<and> glfwGetKey (gkey_backward s) = GLFW_PRESS
       \<and> glfwGetKey (gkey_forward s) \<noteq> GLFW_PRESS \<longrightarrow>
      o_pitch (ProcessKeyboardEvents lib glfwGetKey s) =
        (let a = o_pitch s - gDeltaTime s * p_scalar s * o_scalar s
         in if 360 < a then 0 else if a < 0 then 359.9 else a))
   \<and> (bOrthographicProjection s \<and> glfwGetKey GLFW_KEY_O \<noteq> GLFW_PRESS
       \<and> glfwGetKey (gkey_left s) = GLFW_PRESS
       \<and> glfwGetKey (gkey_right s) \<noteq> GLFW_PRESS \<longrightarrow>
      o_yaw (ProcessKeyboardEvents lib glfwGetKey s) =
        (let a = o_yaw s - gDeltaTime s * p_scalar s * o_scalar s
         in if 360 < a then 0 else if a < 0 then 359.9 else a))
   \<and> (bOrthographicProjection s \<and> glfwGetKey GLFW_KEY_O \<noteq> GLFW_PRESS
       \<and> glfwGetKey (gkey_right s) = GLFW_PRESS
       \<and> glfwGetKey (gkey_left s) \<noteq> GLFW_PRESS \<longrightarrow>
      o_yaw (ProcessKeyboardEvents lib glfwGetKey s) =
        (let a = o_yaw s + gDeltaTime s * p_scalar s * o_scalar s
         in if 360 < a then 0 else if a < 0 then 359.9 else a))"
proof -
  have range: "0 \<le> o_yaw s \<and> o_yaw s \<le> 360 \<and> 0 \<le> o_pitch s \<and> o_pitch s \<le> 360 \<longrightarrow>
      0 \<le> o_yaw (ProcessKeyboardEvents lib glfwGetKey s)
      \<and> o_yaw (ProcessKeyboardEvents lib glfwGetKey s) \<le> 360
      \<and> 0 \<le> o_pitch (ProcessKeyboardEvents lib glfwGetKey s)
      \<and> o_pitch (ProcessKeyboardEvents lib glfwGetKey s) \<le> 360"
    using wrap_0_360_range by (simp add: PKE_o_pitch PKE_o_yaw Let_def)
  have handlers:
    "bOrthographicProjection s \<and> glfwGetKey (gkey_forward s) = GLFW_PRESS \<longrightarrow>
      o_pitch (ProcessKeyboardEvents_forward lib glfwGetKey d s) =
        (let a = o_pitch s + d * o_scalar s
         in if 360 < a then 0 else if a < 0 then 359.9 else a)"
    "bOrthographicProjection s \<and> glfwGetKey (gkey_backward s) = GLFW_PRESS \<longrightarrow>
      o_pitch (ProcessKeyboardEvents_backward lib glfwGetKey d s) =
        (let a = o_pitch s - d * o_scalar s
         in if 360 < a then 0 else if a < 0 then 359.9 else a)"
    "bOrthographicProjection s \<and> glfwGetKey (gkey_left s) = GLFW_PRESS \<longrightarrow>
      o_yaw (ProcessKeyboardEvents_left lib glfwGetKey d s) =
        (let a = o_yaw s - d * o_scalar s
         in if 360 < a then 0 else if a < 0 then 359.9 else a)"
    "bOrthographicProjection s \<and> glfwGetKey (gkey_right s) = GLFW_PRESS \<longrightarrow>
      o_yaw (ProcessKeyboardEvents_right lib glfwGetKey d s) =
        (let a = o_yaw s + d * o_scalar s
         in if 360 < a then 0 else if a < 0 then 359.9 else a)"
    by (simp_all add: o_pitch_blocks o_yaw_blocks wrap_0_360_def Let_def)
  have steps:
    "bOrthographicProjection s \<and> glfwGetKey GLFW_KEY_O \<noteq> GLFW_PRESS
       \<and> glfwGetKey (gkey_forward s) = GLFW_PRESS
       \<and> glfwGetKey (gkey_backward s) \<noteq> GLFW_PRESS \<longrightarrow>
      o_pitch (ProcessKeyboardEvents lib glfwGetKey s) =
        (let a = o_pitch s + gDeltaTime s * p_scalar s * o_scalar s
         in if 360 < a then 0 else if a < 0 then 359.9 else a)"
    "bOrthographicProjection s \<and> glfwGetKey GLFW_KEY_O \<noteq> GLFW_PRESS
       \<and> glfwGetKey (gkey_backward s) = GLFW_PRESS
       \<and> glfwGetKey (gkey_forward s) \<noteq> GLFW_PRESS \<longrightarrow>
      o_pitch (ProcessKeyboardEvents lib glfwGetKey s) =
        (let a = o_pitch s - gDeltaTime s * p_scalar s * o_scalar s
         in if 360 < a then 0 else if a < 0 then 359.9 else a)"
    "bOrthographicProjection s \<and> glfwGetKey GLFW_KEY_O \<noteq> GLFW_PRESS
       \<and> glfwGetKey (gkey_left s) = GLFW_PRESS
       \<and> glfwGetKey (gkey_right s) \<noteq> GLFW_PRESS \<longrightarrow>
      o_yaw (ProcessKeyboardEvents lib glfwGetKey s) =
        (let a = o_yaw s - gDeltaTime s * p_scalar s * o_scalar s
         in if 360 < a then 0 else if a < 0 then 359.9 else a)"
    "bOrthographicProjection s \<and> glfwGetKey GLFW_KEY_O \<noteq> GLFW_PRESS
       \<and> glfwGetKey (gkey_right s) = GLFW_PRESS
       \<and> glfwGetKey (gkey_left s) \<noteq> GLFW_PRESS \<longrightarrow>
      o_yaw (ProcessKeyboardEvents lib glfwGetKey s) =
        (let a = o_yaw s + gDeltaTime s * p_scalar s * o_scalar s
         in if 360 < a then 0 else if a < 0 then 359.9 else a)"
    by (simp_all add: PKE_o_pitch_one_key PKE_o_yaw_one_key wrap_0_360_def Let_def)
  from range handlers steps show ?thesis by blast
qed

theorem orbit_angles_stay_in_range_witness:
  "0 \<le> o_yaw ((ViewManager fly_camera True)
       \<lparr> bOrthographicProjection := True, gDeltaTime := 0.1, o_pitch := 359.8 \<rparr>)
   \<and> o_yaw ((ViewManager fly_camera True)
       \<lparr> bOrthographicProjection := True, gDeltaTime := 0.1, o_pitch := 359.8 \<rparr>) \<le> 360
   \<and> 0 \<le> o_pitch ((ViewManager fly_camera True)
       \<lparr> bOrthographicProjection := True, gDeltaTime := 0.1, o_pitch := 359.8 \<rparr>)
   \<and> o_pitch ((ViewManager fly_camera True)
       \<lparr> bOrthographicProjection := True, gDeltaTime := 0.1, o_pitch := 359.8 \<rparr>) \<le> 360
   \<and> bOrthographicProjection ((ViewManager fly_camera True)
       \<lparr> bOrthographicProjection := True, gDeltaTime := 0.1, o_pitch := 359.8 \<rparr>)
   \<and> o_pitch (ProcessKeyboardEvents fly_camera (press GLFW_KEY_W)
       ((ViewManager fly_camera True)
          \<lparr> bOrthographicProjection := True, gDeltaTime := 0.1, o_pitch := 359.8 \<rparr>)) = 0
   \<and> o_yaw (ProcessKeyboardEvents fly_camera (press GLFW_KEY_A)
       ((ViewManager fly_camera True)
          \<lparr> bOrthographicProjection := True, gDeltaTime := 0.1, o_pitch := 359.8 \<rparr>)) = 359.9
   \<and> 0 \<le> o_yaw (ProcessKeyboardEvents fly_camera (press GLFW_KEY_W)
       ((ViewManager fly_camera True)
          \<lparr> bOrthographicProjection := True, gDeltaTime := 0.1, o_pitch := 359.8 \<rparr>))
   \<and> o_pitch (ProcessKeyboardEvents fly_camera (press GLFW_KEY_A)
       ((ViewManager fly_camera True)
          \<lparr> bOrthographicProjection := True, gDeltaTime := 0.1, o_pitch := 359.8 \<rparr>)) \<le> 360"
  using
    orbit_angles_stay_in_range [where lib = fly_camera and glfwGetKey = "press GLFW_KEY_W"
      and s = "(ViewManager fly_camera True)
                 \<lparr> bOrthographicProjection := True, gDeltaTime := 0.1, o_pitch := 359.8 \<rparr>"]
    orbit_angles_stay_in_range [where lib = fly_camera and glfwGetKey = "press GLFW_KEY_A"
      and s = "(ViewManager fly_camera True)
                 \<lparr> bOrthographicProjection := True, gDeltaTime := 0.1, o_pitch := 359.8 \<rparr>"]
  by (simp add: ViewManager_def press_def glfw_defs)

text \<open>
  C9. No operation writes \<open>o_radius\<close>: every event and the recomputation of the orbit
  position leave it as it is, so after every sequence of events from the initial state
  it is 10; and after a frame that ends in orthographic mode the orbit-camera position,
  the one the view looks from, is at distance 10 from the origin.
\<close>

theorem o_radius_never_changes:
  "o_radius (dispatch lib g s e) = o_radius s
   \<and> o_radius (update_o_camera_position s) = o_radius s
   \<and> o_radius (run lib g es (ViewManager lib pShaderManager)) = 10
   \<and> (bOrthographicProjection
        (fst (PrepareSceneView lib g t k (run lib g es (ViewManager lib pShaderManager)))) \<longrightarrow>
      vec_length (o_camera_position
        (fst (PrepareSceneView lib g t k (run lib g es (ViewManager lib pShaderManager))))) = 10)"
proof -
  let ?s = "run lib g es (ViewManager lib pShaderManager)"
  let ?s1 = "ProcessKeyboardEvents lib k (?s\<lparr> gDeltaTime := t - gLastFrame ?s, gLastFrame := t \<rparr>)"
  have r: "o_radius ?s = 10"
    by (simp add: run_o_radius) (simp add: ViewManager_def)
  have r1: "o_radius ?s1 = 10"
    using r by (simp add: PKE_o_radius)
  have "vec_length (o_camera_position (update_o_camera_position ?s1)) = 10"
    using r1 by (simp add: update_length)
  then have "bOrthographicProjection (fst (PrepareSceneView lib g t k ?s)) \<longrightarrow>
      vec_length (o_camera_position (fst (PrepareSceneView lib g t k ?s))) = 10"
    by (simp add: PSV_state Let_def)
  then show ?thesis
    using r by (simp add: dispatch_o_radius update_o_radius)
qed

theorem o_radius_never_changes_witness:
  "bOrthographicProjection
     (fst (PrepareSceneView fly_camera glm_terms 2 (press GLFW_KEY_W)
        (run fly_camera glm_terms [Frame 1 (press GLFW_KEY_O), Mouse_Scroll_Wheel 1 1]
           (ViewManager fly_camera True))))
   \<and> vec_length (o_camera_position
       (fst (PrepareSceneView fly_camera glm_terms 2 (press GLFW_KEY_W)
          (run fly_camera glm_terms [Frame 1 (press GLFW_KEY_O), Mouse_Scroll_Wheel 1 1]
             (ViewManager fly_camera True))))) = 10"
proof -
  let ?s = "run fly_camera glm_terms [Frame 1 (press GLFW_KEY_O), Mouse_Scroll_Wheel 1 1]
              (ViewManager fly_camera True)"
  have flag: "bOrthographicProjection ?s"
    by (simp add: run_def PSV_state Let_def PKE_flag press_def glfw_defs
          update_o_camera_position_def Mouse_Scroll_Wheel_Callback_def)
  have "bOrthographicProjection
      (fst (PrepareSceneView fly_camera glm_terms 2 (press GLFW_KEY_W) ?s))"
    using flag
    by (simp add: PSV_state Let_def PKE_flag press_def glfw_defs update_o_camera_position_def)
  then show ?thesis
    using o_radius_never_changes [where lib = fly_camera and g = glm_terms and t = 2
        and k = "press GLFW_KEY_W" and pShaderManager = True
        and es = "[Frame 1 (press GLFW_KEY_O), Mouse_Scroll_Wheel 1 1]"]
    by simp
qed

section \<open>The claims about SceneManager.cpp\<close>

text \<open>
  C7. \<open>FindMaterial\<close> returns false exactly when the materials list is empty. The
  output parameter after the call is the one passed in when no entry of the list has the
  tag (also when the list is not empty and true is returned), and otherwise the one
  passed in with the five colour and strength fields of the first entry with the tag.
\<close>

theorem FindMaterial_flag_and_output:
  "fst (FindMaterial s t material) = (m_objectMaterials s \<noteq> [])
   \<and> snd (FindMaterial s t material) =
       (case find (\<lambda>entry. tag entry = t) (m_objectMaterials s) of
          None \<Rightarrow> material
        | Some entry \<Rightarrow> copy_material entry material)"
  by (simp add: FindMaterial_result)

text \<open>
  C10. When the six texture files load, \<open>PrepareScene\<close> returns and has called, on
  \<open>m_basicMeshes\<close>, the loaders of the plane, box, sphere, cylinder and prism meshes, once
  each and nothing else (when a file does not load the program exits with status 1 inside
  \<open>LoadSceneTextures\<close>, before any mesh is loaded). The calls \<open>RenderScene\<close> makes on
  \<open>m_basicMeshes\<close> are draw calls of these five meshes.
\<close>

theorem scene_uses_five_meshes:
  "(textures_load io \<longrightarrow>
      (\<exists>s'. PrepareScene io s = Inr s'
            \<and> m_basicMeshes s' =
                m_basicMeshes s
                  @ [LoadMesh PlaneMesh, LoadMesh BoxMesh, LoadMesh SphereMesh,
                     LoadMesh CylinderMesh, LoadMesh PrismMesh]))
   \<and> (\<not> textures_load io \<longrightarrow> PrepareScene io s = Inl (Exit 1))
   \<and> set RenderScene =
       DrawMesh ` {PlaneMesh, BoxMesh, SphereMesh, CylinderMesh, PrismMesh}"
  using PrepareScene_returns [of io s] PrepareScene_exits [of io s] RenderScene_draws
  by blast

theorem scene_uses_five_meshes_witness:
  "textures_load rgba_files
   \<and> (\<exists>s'. PrepareScene rgba_files SceneManager = Inr s'
           \<and> m_basicMeshes s' =
               [LoadMesh PlaneMesh, LoadMesh BoxMesh, LoadMesh SphereMesh,
                LoadMesh CylinderMesh, LoadMesh PrismMesh])
   \<and> \<not> textures_load no_files
   \<and> PrepareScene no_files SceneManager = Inl (Exit 1)"
  using scene_uses_five_meshes [of rgba_files SceneManager]
    scene_uses_five_meshes [of no_files SceneManager] fixtures_load
  by (simp add: SceneManager_def)

end
